theory Spec2Isabelle
  imports Complex_Main "HOL-Library.AList"
begin

section \<open>Conventions of the embedding\<close>

text \<open>
  The repository holds two clients of the exchange simulator: \<open>TradingBot\<close>
  (my_algo.py, the automated client) and \<open>ManualTrader\<close> (manual_trader.py, the
  interactive client). Each method that handles one message or one command becomes a
  function from the object's fields (a record) to the updated fields and the list of
  effects it had, in order: messages put on the order channel, lines printed, channels
  opened.

  \<^item> Python floats (prices, cash, clock readings) are modelled as reals, Python ints as
    \<open>int\<close>; \<open>orders_sent\<close>, which starts at 0 and is only ever incremented, as \<open>nat\<close>.
  \<^item> \<open>json.loads(message)\<close> is library code: a message is given by what decoding
    yields. \<open>Undecodable\<close> is a message on which \<open>json.loads\<close> raises,
    \<open>NonObject\<close> one that decodes to something that is not a dict (so that
    \<open>data.get\<close> raises), \<open>Object d\<close> a dict, given by the fields the handlers read;
    a field is \<open>None\<close> when the key is missing. Fields that are present have the
    types of the wire format.
  \<^item> \<open>time.time()\<close> and the outcome of \<open>ws.send\<close> are inputs of the handler that
    calls them.
  \<^item> The two listener threads and the main loop share the fields without a lock; the
    embedding takes each handler call as one atomic step.
\<close>

datatype 'a payload = Undecodable | NonObject | Object 'a

definition get_or :: "'a \<Rightarrow> 'a option \<Rightarrow> 'a" where
  "get_or dflt v = (case v of None \<Rightarrow> dflt | Some x \<Rightarrow> x)"

definition falsy :: "string option \<Rightarrow> bool" where
  "falsy v = (case v of None \<Rightarrow> True | Some x \<Rightarrow> x = [])"

subsection \<open>Decimal text of integers\<close>

text \<open>What an f-string writes for an int: \<open>str(n)\<close>.\<close>

definition digit_char :: "nat \<Rightarrow> char" where
  "digit_char d = char_of (48 + d)"

fun show_nat :: "nat \<Rightarrow> string" where
  "show_nat n = (if n < 10 then [digit_char n] else show_nat (n div 10) @ [digit_char (n mod 10)])"

declare show_nat.simps [simp del]

definition show_int :: "int \<Rightarrow> string" where
  "show_int i = (if i < 0 then CHR ''-'' # show_nat (nat (- i)) else show_nat (nat i))"

subsection \<open>Rounding\<close>

text \<open>
  \<open>round(x, 2)\<close>: Python rounds to the nearest value with two decimals, a tie to the
  even neighbour. \<open>int(x)\<close> truncates towards zero.
\<close>

definition round_half_even :: "real \<Rightarrow> int" where
  "round_half_even x =
     (let f = \<lfloor>x\<rfloor>; d = x - of_int f
      in if d < 1 / 2 then f else if 1 / 2 < d then f + 1 else if even f then f else f + 1)"

definition round2 :: "real \<Rightarrow> real" where
  "round2 x = of_int (round_half_even (x * 100)) / 100"

definition py_int :: "real \<Rightarrow> int" where
  "py_int x = (if 0 \<le> x then \<lfloor>x\<rfloor> else \<lceil>x\<rceil>)"

section \<open>Messages and effects\<close>

text \<open>
  A number as \<open>json.loads\<close> yields it: written without fraction or exponent it is a
  Python int, otherwise a float. A float field of the wire format (a price, the last
  trade) may arrive written either way, and \<open>json.dumps\<close> writes the two kinds
  differently (\<open>10\<close> and \<open>10.0\<close>). A float is modelled by the real it denotes; the
  negative zero, the infinities and NaN are left out.
\<close>

datatype num = IntNum int | FloatNum real

text \<open>
  A price level as decoded: an object with numeric values, given by its keys and values
  in the order of the text (the order in which a Python dict keeps and dumps them).
\<close>

type_synonym level = "(string \<times> num) list"

text \<open>A message of the market data channel, by the keys the two handlers read.\<close>

record market_msg =
  m_type :: "string option"
  m_message :: "string option"
  m_step :: "int option"
  m_bid :: "real option"
  m_ask :: "real option"
  m_bids :: "level list option"
  m_asks :: "level list option"
  m_last_trade :: "num option"

text \<open>A message of the order channel.\<close>

record order_msg =
  r_type :: "string option"
  r_order_id :: "string option"
  r_side :: "string option"
  r_price :: "real option"
  r_qty :: "int option"
  r_message :: "string option"

text \<open>The body of the reply to the registration request.\<close>

record start_body =
  b_token :: "string option"
  b_run_id :: "string option"

text \<open>
  The reply to \<open>requests.get\<close>: the call raised, or a status code and the body as
  \<open>resp.json()\<close> decodes it.
\<close>

datatype http_reply = RequestFailed | Reply int "start_body payload"

text \<open>What a strategy returns: \<open>{"side": ..., "price": ..., "qty": ...}\<close>.\<close>

record order =
  side :: string
  price :: real
  qty :: int

text \<open>
  What is put on the order channel. \<open>BotOrder\<close> is TradingBot's order message (keys
  order_id, side, price, qty), \<open>NewOrder\<close> ManualTrader's (type NEW_ORDER, order_id,
  ticker, side, price, qty).
\<close>

datatype wire =
    BotOrder string string real int
  | NewOrder string string string real int
  | CancelOrder string
  | Done

text \<open>The lines the two programs print, by kind and by the values they show.\<close>

datatype line =
    RegistrationFailed
  | MissingTokenOrRunId
  | Registered "string option"
  | RegistrationError
  | MarketDataError
  | Progress int nat int real
  | SendOrderError
  | Authenticated
  | FillLine string int real int real
  | ErrorLine "string option"
  | OrderResponseError
  | MarketConnected "string option"
  | Book "level list" "level list" num int real
  | ManualFill "string option" int real
  | SentStep
  | Usage
  | InvalidNumber
  | SentOrder string int real string
  | SentCancel string
  | ConnectedBanner

datatype channel =
    MarketChannel "string option"
  | OrderChannel "string option" "string option"

datatype out = Sent wire | Printed line | Opened channel

section \<open>TradingBot (my\_algo.py)\<close>

text \<open>
  The fields of \<open>TradingBot\<close> that the handlers read or write. The connection
  settings (host, scenario, password, secure) only build URLs and are left out.
\<close>

record trading_bot =
  student_id :: string
  token :: "string option"
  run_id :: "string option"
  inventory :: int
  cash_flow :: real
  pnl :: real
  current_step :: int
  orders_sent :: nat
  last_bid :: real
  last_ask :: real
  last_mid :: real
  history_steps :: "int list"
  history_mids :: "real list"
  history_bids :: "real list"
  history_asks :: "real list"
  running :: bool
  last_done_time :: "real option"
  step_latencies :: "real list"
  order_send_times :: "(string \<times> real) list"
  fill_latencies :: "real list"

text \<open>\<open>TradingBot.__init__\<close>.\<close>

definition init_bot :: "string \<Rightarrow> trading_bot" where
  "init_bot sid =
     \<lparr>student_id = sid, token = None, run_id = None, inventory = 0, cash_flow = 0, pnl = 0,
      current_step = 0, orders_sent = 0, last_bid = 0, last_ask = 0, last_mid = 0,
      history_steps = [], history_mids = [], history_bids = [], history_asks = [],
      running = True, last_done_time = None, step_latencies = [], order_send_times = [],
      fill_latencies = []\<rparr>"

text \<open>\<open>TradingBot.register\<close>: the new fields, what was printed, and the result.\<close>

definition register :: "http_reply \<Rightarrow> trading_bot \<Rightarrow> trading_bot \<times> out list \<times> bool" where
  "register resp s =
     (case resp of
        RequestFailed \<Rightarrow> (s, [Printed RegistrationError], False)
      | Reply code body \<Rightarrow>
          if code \<noteq> 200 then (s, [Printed RegistrationFailed], False)
          else (case body of
                  Undecodable \<Rightarrow> (s, [Printed RegistrationError], False)
                | NonObject \<Rightarrow> (s, [Printed RegistrationError], False)
                | Object d \<Rightarrow>
                    let s1 = s\<lparr>token := b_token d, run_id := b_run_id d\<rparr>
                    in if falsy (token s1) \<or> falsy (run_id s1)
                       then (s1, [Printed MissingTokenOrRunId], False)
                       else (s1, [Printed (Registered (run_id s1))], True)))"

text \<open>\<open>TradingBot.connect\<close>: the two channels it opens, from the stored run id and token.\<close>

definition connect :: "trading_bot \<Rightarrow> out list" where
  "connect s = [Opened (MarketChannel (run_id s)), Opened (OrderChannel (token s) (run_id s))]"

text \<open>\<open>TradingBot.run\<close>, up to the point where the channels are open.\<close>

definition run_start :: "http_reply \<Rightarrow> trading_bot \<Rightarrow> trading_bot \<times> out list" where
  "run_start resp s =
     (case register resp s of
        (s1, printed, ok) \<Rightarrow> if \<not> ok then (s1, printed) else (s1, printed @ connect s1))"

text \<open>
  What one call of \<open>_on_market_data\<close> reads from its surroundings: the clock at
  arrival, whether \<open>self.order_ws and self.order_ws.sock\<close> holds, the clock in
  \<open>_send_order\<close> and whether its send went through, whether the send of DONE went
  through and the clock read after it.
\<close>

record tick_env =
  recv_time :: real
  sock_open :: bool
  order_time :: real
  order_send_ok :: bool
  done_send_ok :: bool
  done_time :: real

text \<open>
  \<open>TradingBot.decide_order\<close>, the strategy of the template. The handler below takes
  the strategy as a parameter, since the template asks for this method to be replaced.
\<close>

definition decide_order :: "trading_bot \<Rightarrow> real \<Rightarrow> real \<Rightarrow> real \<Rightarrow> order option" where
  "decide_order s bid ask mid =
     (if mid \<le> 0 \<or> bid \<le> 0 \<or> ask \<le> 0 then None
      else if current_step s mod 50 \<noteq> 0 then None
      else if inventory s > 200 then Some \<lparr>side = ''SELL'', price = round2 bid, qty = 100\<rparr>
      else if inventory s < - 200 then Some \<lparr>side = ''BUY'', price = round2 ask, qty = 100\<rparr>
      else if (current_step s div 50) mod 2 = 0
        then Some \<lparr>side = ''BUY'', price = round2 ask, qty = 100\<rparr>
      else Some \<lparr>side = ''SELL'', price = round2 bid, qty = 100\<rparr>)"

text \<open>The order id that \<open>_send_order\<close> writes: \<open>ORD_{student_id}_{current_step}_{orders_sent}\<close>.\<close>

definition order_id_of :: "string \<Rightarrow> int \<Rightarrow> nat \<Rightarrow> string" where
  "order_id_of sid step n = ''ORD_'' @ sid @ ''_'' @ show_int step @ ''_'' @ show_nat n"

text \<open>
  \<open>TradingBot._send_order\<close>: the send time is stored before the send; the counter
  moves only when the send did not raise.
\<close>

definition send_order :: "tick_env \<Rightarrow> order \<Rightarrow> trading_bot \<Rightarrow> trading_bot \<times> out list" where
  "send_order env od s =
     (let oid = order_id_of (student_id s) (current_step s) (orders_sent s);
          s1 = s\<lparr>order_send_times := AList.update oid (order_time env) (order_send_times s)\<rparr>
      in if order_send_ok env
         then (s1\<lparr>orders_sent := orders_sent s1 + 1\<rparr>, [Sent (BotOrder oid (side od) (price od) (qty od))])
         else (s1, [Printed SendOrderError]))"

text \<open>\<open>TradingBot._send_done\<close>: a send that raises is passed over in silence.\<close>

definition send_done :: "tick_env \<Rightarrow> trading_bot \<Rightarrow> trading_bot \<times> out list" where
  "send_done env s =
     (if done_send_ok env then (s\<lparr>last_done_time := Some (done_time env)\<rparr>, [Sent Done])
      else (s, []))"

text \<open>The mid price as \<open>_on_market_data\<close> computes it.\<close>

definition mid_price :: "real \<Rightarrow> real \<Rightarrow> real" where
  "mid_price bid ask =
     (if 0 < bid \<and> 0 < ask then (bid + ask) / 2
      else if 0 < bid then bid
      else if 0 < ask then ask
      else 0)"

text \<open>The average the progress line shows: \<open>sum(xs[-100:]) / min(len(xs), 100)\<close>.\<close>

definition avg_latency :: "real list \<Rightarrow> real" where
  "avg_latency xs = sum_list (drop (length xs - 100) xs) / of_nat (min (length xs) 100)"

text \<open>\<open>TradingBot._on_market_data\<close>, with the strategy as its first argument.\<close>

definition on_market_data ::
  "(trading_bot \<Rightarrow> real \<Rightarrow> real \<Rightarrow> real \<Rightarrow> order option) \<Rightarrow> tick_env \<Rightarrow> market_msg payload
     \<Rightarrow> trading_bot \<Rightarrow> trading_bot \<times> out list" where
  "on_market_data decide env msg s =
     (case msg of
        Undecodable \<Rightarrow> (s, [Printed MarketDataError])
      | NonObject \<Rightarrow> (s, [Printed MarketDataError])
      | Object d \<Rightarrow>
          if m_type d = Some ''CONNECTED'' then (s, [])
          else
            let s1 = (case last_done_time s of
                        None \<Rightarrow> s
                      | Some t0 \<Rightarrow>
                          s\<lparr>step_latencies := step_latencies s @ [(recv_time env - t0) * 1000]\<rparr>);
                s2 = s1\<lparr>current_step := get_or 0 (m_step d),
                        last_bid := get_or 0 (m_bid d),
                        last_ask := get_or 0 (m_ask d)\<rparr>;
                progress =
                  (if current_step s2 mod 500 = 0 \<and> step_latencies s2 \<noteq> []
                   then [Printed (Progress (current_step s2) (orders_sent s2) (inventory s2)
                                    (avg_latency (step_latencies s2)))]
                   else []);
                s3 = s2\<lparr>last_mid := mid_price (last_bid s2) (last_ask s2)\<rparr>;
                s4 = s3\<lparr>history_steps := history_steps s3 @ [current_step s3],
                        history_mids := history_mids s3 @ [last_mid s3],
                        history_bids := history_bids s3 @ [last_bid s3],
                        history_asks := history_asks s3 @ [last_ask s3]\<rparr>;
                ordered =
                  (case decide s4 (last_bid s4) (last_ask s4) (last_mid s4) of
                     None \<Rightarrow> (s4, [])
                   | Some od \<Rightarrow> if sock_open env then send_order env od s4 else (s4, []));
                finished = send_done env (fst ordered)
            in (fst finished, progress @ snd ordered @ snd finished))"

text \<open>\<open>TradingBot._on_order_response\<close>; its first argument is the clock at arrival.\<close>

definition on_order_response ::
  "real \<Rightarrow> order_msg payload \<Rightarrow> trading_bot \<Rightarrow> trading_bot \<times> out list" where
  "on_order_response now msg s =
     (case msg of
        Undecodable \<Rightarrow> (s, [Printed OrderResponseError])
      | NonObject \<Rightarrow> (s, [Printed OrderResponseError])
      | Object d \<Rightarrow>
          if r_type d = Some ''AUTHENTICATED'' then (s, [Printed Authenticated])
          else if r_type d = Some ''FILL'' then
            let q = get_or 0 (r_qty d);
                p = get_or 0 (r_price d);
                sd = get_or [] (r_side d);
                oid = get_or [] (r_order_id d);
                s1 = (case map_of (order_send_times s) oid of
                        None \<Rightarrow> s
                      | Some t \<Rightarrow>
                          s\<lparr>fill_latencies := fill_latencies s @ [(now - t) * 1000],
                            order_send_times := AList.delete oid (order_send_times s)\<rparr>);
                s2 = (if sd = ''BUY''
                      then s1\<lparr>inventory := inventory s1 + q,
                              cash_flow := cash_flow s1 - of_int q * p\<rparr>
                      else s1\<lparr>inventory := inventory s1 - q,
                              cash_flow := cash_flow s1 + of_int q * p\<rparr>);
                s3 = s2\<lparr>pnl := cash_flow s2 + of_int (inventory s2) * last_mid s2\<rparr>
            in (s3, [Printed (FillLine sd q p (inventory s3) (pnl s3))])
          else if r_type d = Some ''ERROR'' then (s, [Printed (ErrorLine (r_message d))])
          else (s, []))"

text \<open>
  A session of the bot: the messages its two listeners deliver, in the order the
  handlers run, each with what the handler reads from its surroundings.
\<close>

datatype event =
    MarketData tick_env "market_msg payload"
  | OrderResponse real "order_msg payload"

fun handle ::
  "(trading_bot \<Rightarrow> real \<Rightarrow> real \<Rightarrow> real \<Rightarrow> order option) \<Rightarrow> event \<Rightarrow> trading_bot
     \<Rightarrow> trading_bot \<times> out list" where
  "handle decide (MarketData env msg) s = on_market_data decide env msg s"
| "handle decide (OrderResponse now msg) s = on_order_response now msg s"

fun session ::
  "(trading_bot \<Rightarrow> real \<Rightarrow> real \<Rightarrow> real \<Rightarrow> order option) \<Rightarrow> event list \<Rightarrow> trading_bot
     \<Rightarrow> trading_bot \<times> out list" where
  "session decide [] s = (s, [])"
| "session decide (e # es) s =
     (let r1 = handle decide e s; r2 = session decide es (fst r1)
      in (fst r2, snd r1 @ snd r2))"

section \<open>ManualTrader (manual\_trader.py)\<close>

text \<open>
  The snapshot text that \<open>on_market_message\<close> compares: \<open>json.dumps\<close> of the dict
  with the first ten bids, the first ten asks, the last trade and the step (\<open>null\<close>
  when the message has none). \<open>json.dumps\<close> keeps the order of the keys of every
  level, writes an int without a point and a float with one, and writes different
  numbers of one kind differently; so two such texts are equal exactly when the levels
  agree key by key in order, number by number in kind and value, and the last trade and
  the step agree likewise. The text is modelled by these decoded trees: the same level
  with its keys in another order, or 10 for 10.0, is a different tree as it is a
  different text. The step is an int, as the wire format has it and as the bot's
  arithmetic on it needs; the values of a level are numbers.
\<close>

type_synonym fingerprint = "level list \<times> level list \<times> num \<times> int option"

record manual_trader =
  mt_student_id :: string
  mt_token :: "string option"
  mt_run_id :: "string option"
  mt_running :: bool
  last_snapshot_hash :: "fingerprint option"
  mt_inventory :: int
  mt_pnl :: real

text \<open>\<open>ManualTrader.__init__\<close>.\<close>

definition init_trader :: "string \<Rightarrow> manual_trader" where
  "init_trader name =
     \<lparr>mt_student_id = name, mt_token = None, mt_run_id = None, mt_running = True,
      last_snapshot_hash = None, mt_inventory = 0, mt_pnl = 0\<rparr>"

text \<open>
  The handlers of ManualTrader have no \<open>try\<close> of their own: an exception leaves the
  handler, with the fields as they are at that point.
\<close>

datatype exn = JSONDecodeError | AttributeError | TypeError | SendFailed

datatype outcome =
    Returned manual_trader "out list"
  | Raised exn manual_trader "out list"

fun final :: "outcome \<Rightarrow> manual_trader" where
  "final (Returned s outs) = s"
| "final (Raised e s outs) = s"

fun effects :: "outcome \<Rightarrow> out list" where
  "effects (Returned s outs) = outs"
| "effects (Raised e s outs) = outs"

fun raised :: "outcome \<Rightarrow> exn option" where
  "raised (Returned s outs) = None"
| "raised (Raised e s outs) = Some e"

text \<open>\<open>ManualTrader.register\<close>.\<close>

definition mt_register ::
  "http_reply \<Rightarrow> manual_trader \<Rightarrow> manual_trader \<times> out list \<times> bool" where
  "mt_register resp s =
     (case resp of
        RequestFailed \<Rightarrow> (s, [Printed RegistrationError], False)
      | Reply code body \<Rightarrow>
          if code \<noteq> 200 then (s, [Printed RegistrationFailed], False)
          else (case body of
                  Undecodable \<Rightarrow> (s, [Printed RegistrationError], False)
                | NonObject \<Rightarrow> (s, [Printed RegistrationError], False)
                | Object d \<Rightarrow>
                    let s1 = s\<lparr>mt_token := b_token d, mt_run_id := b_run_id d\<rparr>
                    in (s1, [Printed (Registered (mt_run_id s1))], True)))"


text \<open>\<open>ManualTrader.on_market_message\<close>; \<open>display_book\<close> is the \<open>Book\<close> line.\<close>

definition on_market_message :: "market_msg payload \<Rightarrow> manual_trader \<Rightarrow> outcome" where
  "on_market_message msg s =
     (case msg of
        Undecodable \<Rightarrow> Raised JSONDecodeError s []
      | NonObject \<Rightarrow> Raised AttributeError s []
      | Object d \<Rightarrow>
          if m_type d = Some ''CONNECTED'' then Returned s [Printed (MarketConnected (m_message d))]
          else if m_type d = Some ''MARKET_DATA'' \<or> m_type d = Some ''SNAPSHOT'' then
            let bids = get_or [] (m_bids d);
                asks = get_or [] (m_asks d);
                last_price = get_or (FloatNum 0) (m_last_trade d);
                current_snapshot = (take 10 bids, take 10 asks, last_price, m_step d)
            in if Some current_snapshot \<noteq> last_snapshot_hash s
               then Returned (s\<lparr>last_snapshot_hash := Some current_snapshot\<rparr>)
                      [Printed (Book bids asks last_price (mt_inventory s) (mt_pnl s))]
               else Returned s []
          else Returned s [])"

text \<open>
  \<open>ManualTrader.on_order_message\<close>. A FILL without qty makes the first update raise;
  one with qty and without price raises after the inventory has been updated.
\<close>

definition on_order_message :: "order_msg payload \<Rightarrow> manual_trader \<Rightarrow> outcome" where
  "on_order_message msg s =
     (case msg of
        Undecodable \<Rightarrow> Raised JSONDecodeError s []
      | NonObject \<Rightarrow> Raised AttributeError s []
      | Object d \<Rightarrow>
          if r_type d = Some ''FILL'' then
            (case r_qty d of
               None \<Rightarrow> Raised TypeError s []
             | Some q \<Rightarrow>
                 let s1 = (if r_side d = Some ''BUY''
                           then s\<lparr>mt_inventory := mt_inventory s + q\<rparr>
                           else s\<lparr>mt_inventory := mt_inventory s - q\<rparr>)
                 in (case r_price d of
                       None \<Rightarrow> Raised TypeError s1 []
                     | Some p \<Rightarrow>
                         let s2 = (if r_side d = Some ''BUY''
                                   then s1\<lparr>mt_pnl := mt_pnl s1 - of_int q * p\<rparr>
                                   else s1\<lparr>mt_pnl := mt_pnl s1 + of_int q * p\<rparr>)
                         in Returned s2 [Printed (ManualFill (r_side d) q p)]))
          else if r_type d = Some ''ERROR'' then Returned s [Printed (ErrorLine (r_message d))]
          else Returned s [])"

text \<open>
  Messages of the order channel delivered one after the other. What the websocket
  library does with an exception that leaves a handler is not part of the repository:
  the delivery stops there.
\<close>

fun mt_deliver :: "order_msg payload list \<Rightarrow> manual_trader \<Rightarrow> outcome" where
  "mt_deliver [] s = Returned s []"
| "mt_deliver (m # ms) s =
     (case on_order_message m s of
        Raised e s1 outs \<Rightarrow> Raised e s1 outs
      | Returned s1 outs \<Rightarrow>
          (case mt_deliver ms s1 of
             Raised e s2 outs2 \<Rightarrow> Raised e s2 (outs @ outs2)
           | Returned s2 outs2 \<Rightarrow> Returned s2 (outs @ outs2)))"

text \<open>
  One turn of the command loop of \<open>ManualTrader.start\<close>. The line is given by its
  words (\<open>cmd_line.strip().split()\<close>); \<open>int(parts[1])\<close> and \<open>float(parts[2])\<close> are
  library parsers, given by their results (\<open>None\<close>: ValueError). \<open>lower_char\<close> is
  \<open>str.lower\<close> on ASCII letters.
\<close>

record cmd_env =
  cmd_time :: real
  qty_parsed :: "int option"
  price_parsed :: "real option"
  cmd_send_ok :: bool

definition lower_char :: "char \<Rightarrow> char" where
  "lower_char c =
     (let n = (of_char c :: nat) in if 65 \<le> n \<and> n \<le> 90 then char_of (n + 32) else c)"

text \<open>The order id of a manual order: \<open>manual_{int(time.time()*1000)}\<close>.\<close>

definition manual_order_id :: "real \<Rightarrow> string" where
  "manual_order_id t = ''manual_'' @ show_int (py_int (t * 1000))"

datatype turn =
    Next manual_trader "out list"
  | Quit manual_trader "out list"
  | Crashed exn manual_trader "out list"

fun turn_effects :: "turn \<Rightarrow> out list" where
  "turn_effects (Next s outs) = outs"
| "turn_effects (Quit s outs) = outs"
| "turn_effects (Crashed e s outs) = outs"

definition command :: "cmd_env \<Rightarrow> string list \<Rightarrow> manual_trader \<Rightarrow> turn" where
  "command env parts s =
     (case parts of
        [] \<Rightarrow> Next s []
      | word # rest \<Rightarrow>
          let cmd = map lower_char word in
          if cmd = ''quit'' \<or> cmd = ''exit'' then Quit (s\<lparr>mt_running := False\<rparr>) []
          else if cmd \<in> set [''step'', ''next'', ''done''] then
            (if cmd_send_ok env then Next s [Sent Done, Printed SentStep]
             else Crashed SendFailed s [])
          else if cmd \<in> set [''buy'', ''sell''] then
            (if length parts < 3 then Next s [Printed Usage]
             else (case qty_parsed env of
                     None \<Rightarrow> Next s [Printed InvalidNumber]
                   | Some q \<Rightarrow>
                       (case price_parsed env of
                          None \<Rightarrow> Next s [Printed InvalidNumber]
                        | Some p \<Rightarrow>
                            let sd = (if cmd = ''buy'' then ''BUY'' else ''SELL'');
                                oid = manual_order_id (cmd_time env)
                            in if cmd_send_ok env
                               then Next s [Sent (NewOrder oid ''SYM'' sd p q),
                                            Printed (SentOrder sd q p oid)]
                               else Crashed SendFailed s [])))
          else if cmd = ''cancel'' then
            (case rest of
               [] \<Rightarrow> Next s [Printed Usage]
             | oid # others \<Rightarrow>
                 if cmd_send_ok env then Next s [Sent (CancelOrder oid), Printed (SentCancel oid)]
                 else Crashed SendFailed s [])
          else Next s [])"

section \<open>The ledger as the specification words it\<close>

text \<open>
  A fill as the specification has it: an order id, a side that is BUY or SELL, a price
  and a quantity; \<open>fill_msg\<close> is its message on the order channel. The signed
  quantity of a fill is \<open>qty\<close> for BUY and \<open>-qty\<close> for SELL, its signed cash
  \<open>-qty*price\<close> for BUY and \<open>qty*price\<close> for SELL.
\<close>

datatype fill_side = Buy | Sell

record fill =
  fl_order_id :: string
  fl_side :: fill_side
  fl_price :: real
  fl_qty :: int

fun side_text :: "fill_side \<Rightarrow> string" where
  "side_text Buy = ''BUY''"
| "side_text Sell = ''SELL''"

definition fill_msg :: "fill \<Rightarrow> order_msg" where
  "fill_msg f =
     \<lparr>r_type = Some ''FILL'', r_order_id = Some (fl_order_id f),
      r_side = Some (side_text (fl_side f)), r_price = Some (fl_price f),
      r_qty = Some (fl_qty f), r_message = None\<rparr>"

definition signed_qty :: "fill \<Rightarrow> int" where
  "signed_qty f = (case fl_side f of Buy \<Rightarrow> fl_qty f | Sell \<Rightarrow> - fl_qty f)"

definition signed_cash :: "fill \<Rightarrow> real" where
  "signed_cash f =
     (case fl_side f of
        Buy \<Rightarrow> - (of_int (fl_qty f) * fl_price f)
      | Sell \<Rightarrow> of_int (fl_qty f) * fl_price f)"

text \<open>Fills arriving at the bot at the given clock readings.\<close>

definition fill_events :: "(real \<times> fill) list \<Rightarrow> event list" where
  "fill_events tfs = map (\<lambda>tf. OrderResponse (fst tf) (Object (fill_msg (snd tf)))) tfs"

text \<open>
  The mid price known after a list of events: that of the last market message the bot
  processed (one that decodes to an object and is not the CONNECTED greeting), and the
  starting value when there is none.
\<close>

fun latest_mid :: "real \<Rightarrow> event list \<Rightarrow> real" where
  "latest_mid m [] = m"
| "latest_mid m (MarketData env (Object d) # es) =
     (if m_type d = Some ''CONNECTED'' then latest_mid m es
      else latest_mid (mid_price (get_or 0 (m_bid d)) (get_or 0 (m_ask d))) es)"
| "latest_mid m (e # es) = latest_mid m es"

text \<open>The order ids among the messages put on the order channel.\<close>

fun sent_ids :: "out list \<Rightarrow> string list" where
  "sent_ids [] = []"
| "sent_ids (Sent (BotOrder oid sd p q) # outs) = oid # sent_ids outs"
| "sent_ids (Sent (NewOrder oid tk sd p q) # outs) = oid # sent_ids outs"
| "sent_ids (x # outs) = sent_ids outs"

text \<open>The two fills of the specification's worked example.\<close>

definition buy_100_at_10 :: "string \<Rightarrow> fill" where
  "buy_100_at_10 oid = \<lparr>fl_order_id = oid, fl_side = Buy, fl_price = 10, fl_qty = 100\<rparr>"

definition sell_50_at_11 :: "string \<Rightarrow> fill" where
  "sell_50_at_11 oid = \<lparr>fl_order_id = oid, fl_side = Sell, fl_price = 11, fl_qty = 50\<rparr>"

text \<open>Inputs of the worked examples: a market message and what a handler call reads.\<close>

definition tick_9_11 :: market_msg where
  "tick_9_11 =
     \<lparr>m_type = Some ''MARKET_DATA'', m_message = None, m_step = Some 1, m_bid = Some 9,
      m_ask = Some 11, m_bids = Some [[(''price'', FloatNum 9), (''qty'', IntNum 5)]],
      m_asks = Some [[(''price'', FloatNum 11), (''qty'', IntNum 7)]],
      m_last_trade = Some (FloatNum 10)\<rparr>"

definition calm :: tick_env where
  "calm = \<lparr>recv_time = 3, sock_open = True, order_time = 4, order_send_ok = True,
            done_send_ok = True, done_time = 5\<rparr>"

text \<open>Two fills whose side is not BUY: one with an unknown side, one with none.\<close>

definition hold_7_at_3 :: order_msg where
  "hold_7_at_3 =
     \<lparr>r_type = Some ''FILL'', r_order_id = Some ''ghost'', r_side = Some ''HOLD'',
      r_price = Some 3, r_qty = Some 7, r_message = None\<rparr>"

definition sideless_7_at_3 :: order_msg where
  "sideless_7_at_3 =
     \<lparr>r_type = Some ''FILL'', r_order_id = Some ''ghost'', r_side = None,
      r_price = Some 3, r_qty = Some 7, r_message = None\<rparr>"

text \<open>
  A processed market tick: a market message that decodes to an object and is not the
  CONNECTED greeting. Everything else the bot receives (order responses, greetings,
  messages it cannot decode) is not a tick.
\<close>

fun is_tick :: "event \<Rightarrow> bool" where
  "is_tick (MarketData env (Object d)) = (m_type d \<noteq> Some ''CONNECTED'')"
| "is_tick e = False"

definition ticks :: "event list \<Rightarrow> event list" where
  "ticks es = filter is_tick es"

text \<open>The greeting of the market channel and the ready message of the order channel.\<close>

definition greeting :: market_msg where
  "greeting =
     \<lparr>m_type = Some ''CONNECTED'', m_message = Some ''hello'', m_step = None, m_bid = None,
      m_ask = None, m_bids = None, m_asks = None, m_last_trade = None\<rparr>"

definition authenticated :: order_msg where
  "authenticated =
     \<lparr>r_type = Some ''AUTHENTICATED'', r_order_id = None, r_side = None, r_price = None,
      r_qty = None, r_message = None\<rparr>"

text \<open>The messages put on the order channel, among the effects of a handler.\<close>

fun sends :: "out list \<Rightarrow> wire list" where
  "sends [] = []"
| "sends (Sent w # outs) = w # sends outs"
| "sends (x # outs) = sends outs"

text \<open>
  A book message is one of type MARKET\_DATA or SNAPSHOT. Two book messages are written
  with the same top of book when their first ten bids, their first ten asks, their last
  trade and their step are the same trees (a missing list counts as empty, a missing
  last trade as the float 0.0): this is when their snapshot texts are equal.
\<close>

definition is_book :: "market_msg \<Rightarrow> bool" where
  "is_book d \<longleftrightarrow> m_type d = Some ''MARKET_DATA'' \<or> m_type d = Some ''SNAPSHOT''"

definition same_top_of_book :: "market_msg \<Rightarrow> market_msg \<Rightarrow> bool" where
  "same_top_of_book d1 d2 \<longleftrightarrow>
     take 10 (get_or [] (m_bids d1)) = take 10 (get_or [] (m_bids d2)) \<and>
     take 10 (get_or [] (m_asks d1)) = take 10 (get_or [] (m_asks d2)) \<and>
     get_or (FloatNum 0) (m_last_trade d1) = get_or (FloatNum 0) (m_last_trade d2) \<and>
     m_step d1 = m_step d2"

text \<open>
  Two book messages have the same top values when these are equal as Python values are:
  an int equals the float of the same value, and a level equals a level with the same
  keys and equal values, in whatever order the keys are written.
\<close>

fun num_value :: "num \<Rightarrow> real" where
  "num_value (IntNum i) = of_int i"
| "num_value (FloatNum x) = x"

definition level_value :: "level \<Rightarrow> (string \<times> real) set" where
  "level_value lv = set (map (\<lambda>kv. (fst kv, num_value (snd kv))) lv)"

definition same_top_values :: "market_msg \<Rightarrow> market_msg \<Rightarrow> bool" where
  "same_top_values d1 d2 \<longleftrightarrow>
     map level_value (take 10 (get_or [] (m_bids d1))) =
       map level_value (take 10 (get_or [] (m_bids d2))) \<and>
     map level_value (take 10 (get_or [] (m_asks d1))) =
       map level_value (take 10 (get_or [] (m_asks d2))) \<and>
     num_value (get_or (FloatNum 0) (m_last_trade d1)) =
       num_value (get_or (FloatNum 0) (m_last_trade d2)) \<and>
     m_step d1 = m_step d2"

text \<open>
  More inputs of the worked examples: the market message above with another best ask,
  the same at step 50 (a step at which the template's strategy trades), and what a
  command of the manual trader reads.
\<close>

definition tick_9_12 :: market_msg where
  "tick_9_12 = tick_9_11\<lparr>m_asks := Some [[(''price'', FloatNum 12), (''qty'', IntNum 7)]]\<rparr>"

text \<open>
  The market message above written another way: the keys of the bid in the other order,
  the last trade as 10 instead of 10.0.
\<close>

definition tick_9_11_rewritten :: market_msg where
  "tick_9_11_rewritten =
     tick_9_11\<lparr>m_bids := Some [[(''qty'', IntNum 5), (''price'', FloatNum 9)]],
                m_last_trade := Some (IntNum 10)\<rparr>"

text \<open>
  The fields of the bot at the moment \<open>_on_market_data\<close> asks the strategy (lines
  179 to 207): the latency sample, the step, bid, ask and mid and the history have been
  written.
\<close>

definition recorded :: "tick_env \<Rightarrow> market_msg \<Rightarrow> trading_bot \<Rightarrow> trading_bot" where
  "recorded env d s =
     (let s1 = (case last_done_time s of
                  None \<Rightarrow> s
                | Some t0 \<Rightarrow>
                    s\<lparr>step_latencies := step_latencies s @ [(recv_time env - t0) * 1000]\<rparr>);
          s2 = s1\<lparr>current_step := get_or 0 (m_step d),
                  last_bid := get_or 0 (m_bid d),
                  last_ask := get_or 0 (m_ask d)\<rparr>;
          s3 = s2\<lparr>last_mid := mid_price (last_bid s2) (last_ask s2)\<rparr>
      in s3\<lparr>history_steps := history_steps s3 @ [current_step s3],
             history_mids := history_mids s3 @ [last_mid s3],
             history_bids := history_bids s3 @ [last_bid s3],
             history_asks := history_asks s3 @ [last_ask s3]\<rparr>)"


definition tick_step_50 :: market_msg where
  "tick_step_50 = tick_9_11\<lparr>m_step := Some 50\<rparr>"

definition step_env :: cmd_env where
  "step_env = \<lparr>cmd_time = 8, qty_parsed = None, price_parsed = None, cmd_send_ok = True\<rparr>"

text \<open>What a buy command reads when its numbers parse and its send goes through.\<close>

definition buy_env :: "real \<Rightarrow> cmd_env" where
  "buy_env t = \<lparr>cmd_time = t, qty_parsed = Some 1, price_parsed = Some 10, cmd_send_ok = True\<rparr>"

section \<open>Lemmas shared by the properties\<close>

text \<open>Evaluating the decimal text of a number and the lower case of a word.\<close>

lemmas text_eval =
  show_int_def show_nat.simps digit_char_def lower_char_def char_of_def bit_Suc_0_iff

subsection \<open>One fill at the bot\<close>

lemma fill_step_inventory:
  "inventory (fst (on_order_response now (Object (fill_msg f)) s)) = inventory s + signed_qty f"
  by (cases "fl_side f")
     (simp_all add: on_order_response_def fill_msg_def signed_qty_def get_or_def Let_def
        split: option.split)

lemma fill_step_cash:
  "cash_flow (fst (on_order_response now (Object (fill_msg f)) s)) = cash_flow s + signed_cash f"
  by (cases "fl_side f")
     (simp_all add: on_order_response_def fill_msg_def signed_cash_def get_or_def Let_def
        split: option.split)

lemma order_response_last_mid:
  "last_mid (fst (on_order_response now msg s)) = last_mid s"
  by (simp add: on_order_response_def Let_def split: payload.split option.split)

lemma fill_step_pnl:
  "r_type d = Some ''FILL'' \<Longrightarrow>
   pnl (fst (on_order_response now (Object d) s)) =
     cash_flow (fst (on_order_response now (Object d) s))
       + of_int (inventory (fst (on_order_response now (Object d) s))) * last_mid s"
  by (simp add: on_order_response_def Let_def split: option.split)

lemma session_fills_inventory:
  "inventory (fst (session decide (fill_events tfs) s)) =
     inventory s + sum_list (map (\<lambda>tf. signed_qty (snd tf)) tfs)"
  by (induction tfs arbitrary: s) (simp_all add: fill_events_def Let_def fill_step_inventory)

lemma session_fills_cash:
  "cash_flow (fst (session decide (fill_events tfs) s)) =
     cash_flow s + sum_list (map (\<lambda>tf. signed_cash (snd tf)) tfs)"
  by (induction tfs arbitrary: s) (simp_all add: fill_events_def Let_def fill_step_cash)

subsection \<open>One fill at the manual trader\<close>

lemma mt_fill_step:
  "on_order_message (Object (fill_msg f)) s =
     Returned (s\<lparr>mt_inventory := mt_inventory s + signed_qty f,
                 mt_pnl := mt_pnl s + signed_cash f\<rparr>)
       [Printed (ManualFill (Some (side_text (fl_side f))) (fl_qty f) (fl_price f))]"
  by (cases "fl_side f")
     (simp_all add: on_order_message_def fill_msg_def signed_qty_def signed_cash_def Let_def)

lemma mt_deliver_fills:
  "raised (mt_deliver (map (\<lambda>f. Object (fill_msg f)) fs) m) = None \<and>
   mt_inventory (final (mt_deliver (map (\<lambda>f. Object (fill_msg f)) fs) m)) =
     mt_inventory m + sum_list (map signed_qty fs) \<and>
   mt_pnl (final (mt_deliver (map (\<lambda>f. Object (fill_msg f)) fs) m)) =
     mt_pnl m + sum_list (map signed_cash fs)"
proof (induction fs arbitrary: m)
  case Nil
  show ?case by simp
next
  case (Cons f fs)
  let ?m1 = "m\<lparr>mt_inventory := mt_inventory m + signed_qty f, mt_pnl := mt_pnl m + signed_cash f\<rparr>"
  from Cons.IH [of ?m1] show ?case
    by (cases "mt_deliver (map (\<lambda>f. Object (fill_msg f)) fs) ?m1") (simp_all add: mt_fill_step)
qed

section \<open>C1: fills accumulate in the ledger\<close>

text \<open>
  Claim C1. Fills change the ledger by their signed quantity and signed cash: after any
  list of fills (each a BUY or a SELL, arriving at any times) the bot's inventory is what
  it was plus the signed sum of the quantities, and its cash flow what it was plus the
  signed sum of \<open>qty*price\<close>; from inventory 0 and cash flow 0 these are the sums
  themselves, and a list of one fill gives the effect of a single BUY or SELL. For the
  fills BUY 100 at 10.00 then SELL 50 at 11.00, from inventory 0 and cash flow 0 with the
  last mid at 11.00, the bot ends with inventory 50, cash flow -450 and a mark-to-market
  P and L of 100. ManualTrader accumulates the same two sums, the cash in its \<open>pnl\<close>
  field, and no fill makes its handler raise.
\<close>

theorem fills_accumulate_in_ledger:
  "inventory (fst (session decide (fill_events tfs) s)) =
     inventory s + sum_list (map (\<lambda>tf. signed_qty (snd tf)) tfs) \<and>
   cash_flow (fst (session decide (fill_events tfs) s)) =
     cash_flow s + sum_list (map (\<lambda>tf. signed_cash (snd tf)) tfs) \<and>
   inventory (fst (session decide (fill_events [(t1, buy_100_at_10 a), (t2, sell_50_at_11 b)])
                (s\<lparr>inventory := 0, cash_flow := 0, last_mid := 11\<rparr>))) = 50 \<and>
   cash_flow (fst (session decide (fill_events [(t1, buy_100_at_10 a), (t2, sell_50_at_11 b)])
                (s\<lparr>inventory := 0, cash_flow := 0, last_mid := 11\<rparr>))) = - 450 \<and>
   pnl (fst (session decide (fill_events [(t1, buy_100_at_10 a), (t2, sell_50_at_11 b)])
                (s\<lparr>inventory := 0, cash_flow := 0, last_mid := 11\<rparr>))) = 100 \<and>
   raised (mt_deliver (map (\<lambda>f. Object (fill_msg f)) fs) m) = None \<and>
   mt_inventory (final (mt_deliver (map (\<lambda>f. Object (fill_msg f)) fs) m)) =
     mt_inventory m + sum_list (map signed_qty fs) \<and>
   mt_pnl (final (mt_deliver (map (\<lambda>f. Object (fill_msg f)) fs) m)) =
     mt_pnl m + sum_list (map signed_cash fs)"
proof -
  let ?two = "fill_events [(t1, buy_100_at_10 a), (t2, sell_50_at_11 b)]"
  let ?s0 = "s\<lparr>inventory := 0, cash_flow := 0, last_mid := 11\<rparr>"
  have inv: "inventory (fst (session decide ?two ?s0)) = 50"
    by (simp add: session_fills_inventory signed_qty_def buy_100_at_10_def sell_50_at_11_def)
  have cash: "cash_flow (fst (session decide ?two ?s0)) = - 450"
    by (simp add: session_fills_cash signed_cash_def buy_100_at_10_def sell_50_at_11_def)
  have "pnl (fst (session decide ?two ?s0)) =
          cash_flow (fst (session decide ?two ?s0))
            + of_int (inventory (fst (session decide ?two ?s0))) * 11"
    by (simp add: fill_events_def Let_def fill_step_pnl fill_msg_def order_response_last_mid)
  with inv cash have p: "pnl (fst (session decide ?two ?s0)) = 100"
    by simp
  from inv cash p session_fills_inventory session_fills_cash mt_deliver_fills
  show ?thesis by blast
qed

section \<open>C2: the mark-to-market figure after a fill\<close>

lemma send_order_last_mid: "last_mid (fst (send_order env od s)) = last_mid s"
  by (simp add: send_order_def Let_def)

lemma send_done_last_mid: "last_mid (fst (send_done env s)) = last_mid s"
  by (simp add: send_done_def)

lemma market_data_last_mid:
  "last_mid (fst (on_market_data decide env msg s)) =
     (case msg of
        Object d \<Rightarrow> if m_type d = Some ''CONNECTED'' then last_mid s
                    else mid_price (get_or 0 (m_bid d)) (get_or 0 (m_ask d))
      | _ \<Rightarrow> last_mid s)"
  by (simp add: on_market_data_def Let_def send_order_last_mid send_done_last_mid
        split: payload.split option.split)

lemma session_last_mid:
  "last_mid (fst (session decide es s)) = latest_mid (last_mid s) es"
proof (induction es arbitrary: s)
  case Nil
  show ?case by simp
next
  case (Cons e es)
  show ?case
  proof (cases e)
    case (MarketData env msg)
    with Cons.IH show ?thesis
      by (cases msg) (simp_all add: Let_def market_data_last_mid)
  next
    case (OrderResponse now msg)
    with Cons.IH show ?thesis
      by (simp add: Let_def order_response_last_mid)
  qed
qed

text \<open>
  Claim C2, as amended. In TradingBot, right after a FILL has been applied the stored
  P and L is the cash flow plus the inventory times the last mid, and the last mid is
  the one computed from the most recent market message processed before the fill (the
  starting value when there was none); this holds after any session, for every message
  of type FILL. ManualTrader keeps no mid price and no cash flow field: a fill changes
  its \<open>pnl\<close> field by the fill's signed cash and nothing marks it to market.
\<close>

theorem pnl_marked_after_fill:
  "r_type d = Some ''FILL'' \<Longrightarrow>
   pnl (fst (on_order_response now (Object d) (fst (session decide es s)))) =
     cash_flow (fst (on_order_response now (Object d) (fst (session decide es s))))
       + of_int (inventory (fst (on_order_response now (Object d) (fst (session decide es s)))))
           * latest_mid (last_mid s) es \<and>
   last_mid (fst (on_order_response now (Object d) (fst (session decide es s)))) =
     latest_mid (last_mid s) es \<and>
   mt_pnl (final (on_order_message (Object (fill_msg f)) m)) = mt_pnl m + signed_cash f"
  by (simp add: fill_step_pnl order_response_last_mid session_last_mid mt_fill_step)

text \<open>
  The theorem at a concrete session: a market message with bid 9 and ask 11 (mid 10),
  then a fill BUY 100 at 10; the bot holds 100, has cash flow -1000 and P and L 0.
\<close>

theorem pnl_marked_after_fill_witness:
  "r_type (fill_msg (buy_100_at_10 ''a'')) = Some ''FILL'' \<and>
   latest_mid 0 [MarketData calm (Object tick_9_11)] = 10 \<and>
   inventory (fst (on_order_response 6 (Object (fill_msg (buy_100_at_10 ''a'')))
          (fst (session decide_order [MarketData calm (Object tick_9_11)] (init_bot ''x''))))) = 100 \<and>
   cash_flow (fst (on_order_response 6 (Object (fill_msg (buy_100_at_10 ''a'')))
          (fst (session decide_order [MarketData calm (Object tick_9_11)] (init_bot ''x''))))) = - 1000 \<and>
   pnl (fst (on_order_response 6 (Object (fill_msg (buy_100_at_10 ''a'')))
          (fst (session decide_order [MarketData calm (Object tick_9_11)] (init_bot ''x''))))) = 0"
proof -
  let ?d = "fill_msg (buy_100_at_10 ''a'')"
  let ?es = "[MarketData calm (Object tick_9_11)]"
  let ?s1 = "fst (session decide_order ?es (init_bot ''x''))"
  have h: "r_type ?d = Some ''FILL''" by (simp add: fill_msg_def)
  have m: "latest_mid 0 ?es = 10" by (simp add: tick_9_11_def mid_price_def get_or_def)
  have i: "inventory (fst (on_order_response 6 (Object ?d) ?s1)) = 100"
    by (simp add: fill_step_inventory signed_qty_def buy_100_at_10_def Let_def
          on_market_data_def tick_9_11_def decide_order_def get_or_def mid_price_def
          send_done_def calm_def init_bot_def)
  have c: "cash_flow (fst (on_order_response 6 (Object ?d) ?s1)) = - 1000"
    by (simp add: fill_step_cash signed_cash_def buy_100_at_10_def Let_def
          on_market_data_def tick_9_11_def decide_order_def get_or_def mid_price_def
          send_done_def calm_def init_bot_def)
  from pnl_marked_after_fill [OF h, of 6 decide_order ?es "init_bot ''x''"] h m i c
  show ?thesis by (simp add: init_bot_def)
qed

text \<open>
  A market tick moves \<open>last_mid\<close> and leaves \<open>pnl\<close> as the last fill set it: the
  figure is brought up to date by fills only.
\<close>

lemma tick_leaves_pnl: "pnl (fst (on_market_data decide env msg s)) = pnl s"
  by (simp add: on_market_data_def Let_def send_order_def send_done_def
        split: payload.split option.split)

text \<open>
  Against claim C2 as stated: both programs receive the market message with bid 9 and
  ask 11, so that the mid known at fill time is 10, and then the fill BUY 100 at 10.
  ManualTrader ends with 100 held and its \<open>pnl\<close> at the cash flow -1000, which is not
  cash flow plus inventory times mid; the bot, on the same two messages, ends with its
  \<open>pnl\<close> at -1000 + 100 * 10.
\<close>

theorem manual_pnl_not_marked:
  "mid_price (get_or 0 (m_bid tick_9_11)) (get_or 0 (m_ask tick_9_11)) = 10 \<and>
   effects (on_market_message (Object tick_9_11) (init_trader ''m'')) =
     [Printed (Book [[(''price'', FloatNum 9), (''qty'', IntNum 5)]]
                    [[(''price'', FloatNum 11), (''qty'', IntNum 7)]] (FloatNum 10) 0 0)] \<and>
   mt_inventory (final (on_order_message (Object (fill_msg (buy_100_at_10 ''a'')))
      (final (on_market_message (Object tick_9_11) (init_trader ''m''))))) = 100 \<and>
   mt_pnl (final (on_order_message (Object (fill_msg (buy_100_at_10 ''a'')))
      (final (on_market_message (Object tick_9_11) (init_trader ''m''))))) = - 1000 \<and>
   mt_pnl (final (on_order_message (Object (fill_msg (buy_100_at_10 ''a'')))
      (final (on_market_message (Object tick_9_11) (init_trader ''m'')))))
     \<noteq> - 1000 + of_int (mt_inventory (final (on_order_message (Object (fill_msg (buy_100_at_10 ''a'')))
          (final (on_market_message (Object tick_9_11) (init_trader ''m''))))))
        * mid_price (get_or 0 (m_bid tick_9_11)) (get_or 0 (m_ask tick_9_11)) \<and>
   cash_flow (fst (session decide_order
      [MarketData calm (Object tick_9_11),
       OrderResponse 6 (Object (fill_msg (buy_100_at_10 ''a'')))] (init_bot ''x''))) = - 1000 \<and>
   pnl (fst (session decide_order
      [MarketData calm (Object tick_9_11),
       OrderResponse 6 (Object (fill_msg (buy_100_at_10 ''a'')))] (init_bot ''x'')))
     = - 1000 + of_int (inventory (fst (session decide_order
          [MarketData calm (Object tick_9_11),
           OrderResponse 6 (Object (fill_msg (buy_100_at_10 ''a'')))] (init_bot ''x''))))
        * mid_price (get_or 0 (m_bid tick_9_11)) (get_or 0 (m_ask tick_9_11))"
proof -
  have mid: "mid_price (get_or 0 (m_bid tick_9_11)) (get_or 0 (m_ask tick_9_11)) = 10"
    by (simp add: tick_9_11_def get_or_def mid_price_def)
  have shown: "effects (on_market_message (Object tick_9_11) (init_trader ''m'')) =
     [Printed (Book [[(''price'', FloatNum 9), (''qty'', IntNum 5)]]
                    [[(''price'', FloatNum 11), (''qty'', IntNum 7)]] (FloatNum 10) 0 0)]"
    by (simp add: on_market_message_def tick_9_11_def get_or_def Let_def init_trader_def)
  let ?m1 = "final (on_market_message (Object tick_9_11) (init_trader ''m''))"
  have m1: "mt_inventory ?m1 = 0" "mt_pnl ?m1 = 0"
    by (simp_all add: on_market_message_def tick_9_11_def get_or_def Let_def init_trader_def)
  let ?m2 = "final (on_order_message (Object (fill_msg (buy_100_at_10 ''a''))) ?m1)"
  from m1 have m2: "mt_inventory ?m2 = 100" "mt_pnl ?m2 = - 1000"
    by (simp_all add: mt_fill_step signed_qty_def signed_cash_def buy_100_at_10_def)
  let ?b = "fst (session decide_order
      [MarketData calm (Object tick_9_11),
       OrderResponse 6 (Object (fill_msg (buy_100_at_10 ''a'')))] (init_bot ''x''))"
  have b: "inventory ?b = 100" "cash_flow ?b = - 1000" "pnl ?b = 0"
    by (simp_all add: on_order_response_def fill_msg_def buy_100_at_10_def Let_def
          on_market_data_def tick_9_11_def decide_order_def get_or_def mid_price_def
          send_done_def calm_def init_bot_def)
  from mid shown m2 b show ?thesis by simp
qed

section \<open>C3: a fill whose order id is not pending\<close>

text \<open>
  Claim C3, as amended. When a FILL arrives whose order id has no entry in
  \<open>order_send_times\<close> (an order this session did not send, or a second fill for an id
  whose entry the first fill removed), the handler leaves \<open>order_send_times\<close> and
  \<open>fill_latencies\<close> as they are, updates inventory and cash flow from the fill's own
  qty, price and side, raises nothing, and prints the line it prints for every fill and
  no other: the code has no anomaly report. After any FILL the id has no entry, so that
  a duplicate is such a fill.
\<close>

theorem unmatched_fill_leaves_latency_tables:
  "r_type d = Some ''FILL'' \<Longrightarrow>
   map_of (order_send_times (fst (on_order_response now (Object d) s)))
     (get_or [] (r_order_id d)) = None \<and>
   (map_of (order_send_times s) (get_or [] (r_order_id d)) = None \<longrightarrow>
    order_send_times (fst (on_order_response now (Object d) s)) = order_send_times s \<and>
    fill_latencies (fst (on_order_response now (Object d) s)) = fill_latencies s \<and>
    inventory (fst (on_order_response now (Object d) s)) =
      (if get_or [] (r_side d) = ''BUY'' then inventory s + get_or 0 (r_qty d)
       else inventory s - get_or 0 (r_qty d)) \<and>
    cash_flow (fst (on_order_response now (Object d) s)) =
      (if get_or [] (r_side d) = ''BUY''
       then cash_flow s - of_int (get_or 0 (r_qty d)) * get_or 0 (r_price d)
       else cash_flow s + of_int (get_or 0 (r_qty d)) * get_or 0 (r_price d)) \<and>
    snd (on_order_response now (Object d) s) =
      [Printed (FillLine (get_or [] (r_side d)) (get_or 0 (r_qty d)) (get_or 0 (r_price d))
         (inventory (fst (on_order_response now (Object d) s)))
         (pnl (fst (on_order_response now (Object d) s))))])"
  by (simp add: on_order_response_def Let_def delete_conv split: option.split)

text \<open>
  The theorem at a bot with one pending order and a fill for an id it never sent: the
  pending entry stays, no latency is recorded, and the fill BUY 100 at 10 is applied.
\<close>

theorem unmatched_fill_leaves_latency_tables_witness:
  "r_type (fill_msg (buy_100_at_10 ''ghost'')) = Some ''FILL'' \<and>
   map_of (order_send_times ((init_bot ''x'')\<lparr>order_send_times := [(''ORD_x_0_0'', 1)]\<rparr>))
     (get_or [] (r_order_id (fill_msg (buy_100_at_10 ''ghost'')))) = None \<and>
   order_send_times (fst (on_order_response 2 (Object (fill_msg (buy_100_at_10 ''ghost'')))
      ((init_bot ''x'')\<lparr>order_send_times := [(''ORD_x_0_0'', 1)]\<rparr>))) = [(''ORD_x_0_0'', 1)] \<and>
   fill_latencies (fst (on_order_response 2 (Object (fill_msg (buy_100_at_10 ''ghost'')))
      ((init_bot ''x'')\<lparr>order_send_times := [(''ORD_x_0_0'', 1)]\<rparr>))) = [] \<and>
   inventory (fst (on_order_response 2 (Object (fill_msg (buy_100_at_10 ''ghost'')))
      ((init_bot ''x'')\<lparr>order_send_times := [(''ORD_x_0_0'', 1)]\<rparr>))) = 100 \<and>
   cash_flow (fst (on_order_response 2 (Object (fill_msg (buy_100_at_10 ''ghost'')))
      ((init_bot ''x'')\<lparr>order_send_times := [(''ORD_x_0_0'', 1)]\<rparr>))) = - 1000"
proof -
  let ?d = "fill_msg (buy_100_at_10 ''ghost'')"
  let ?s = "(init_bot ''x'')\<lparr>order_send_times := [(''ORD_x_0_0'', 1)]\<rparr>"
  have h1: "r_type ?d = Some ''FILL''" by (simp add: fill_msg_def)
  have h2: "map_of (order_send_times ?s) (get_or [] (r_order_id ?d)) = None"
    by (simp add: fill_msg_def buy_100_at_10_def get_or_def)
  from unmatched_fill_leaves_latency_tables [OF h1, of 2 ?s] h1 h2
  show ?thesis
    by (simp add: fill_msg_def buy_100_at_10_def get_or_def init_bot_def)
qed

text \<open>
  Against claim C3 as stated (the fill is logged as an anomaly): the fill BUY 100 at 10
  for the id ORD\_x\_0\_0 makes the handler print one and the same line, whether the bot
  has that id pending or has no pending order at all.
\<close>

theorem unmatched_fill_prints_as_matched:
  "snd (on_order_response 2 (Object (fill_msg (buy_100_at_10 ''ORD_x_0_0''))) (init_bot ''x''))
     = [Printed (FillLine ''BUY'' 100 10 100 (- 1000))] \<and>
   snd (on_order_response 2 (Object (fill_msg (buy_100_at_10 ''ORD_x_0_0'')))
          ((init_bot ''x'')\<lparr>order_send_times := [(''ORD_x_0_0'', 1)]\<rparr>))
     = [Printed (FillLine ''BUY'' 100 10 100 (- 1000))]"
  by (simp add: on_order_response_def fill_msg_def buy_100_at_10_def get_or_def init_bot_def Let_def)

section \<open>C10: a side other than BUY\<close>

text \<open>
  Claim C10. A FILL whose side is anything but the text BUY (SELL, the empty text, any
  other text, or no side at all) is applied as a sell. The bot takes qty from the
  inventory and adds \<open>qty*price\<close> to the cash flow (a missing qty or price counts as
  0) and does not report an error. ManualTrader does the same to its inventory and
  \<open>pnl\<close> when qty and price are present; without them its arithmetic raises, whatever
  the side.
\<close>

theorem other_side_is_sell:
  "r_type d = Some ''FILL'' \<Longrightarrow> r_side d \<noteq> Some ''BUY'' \<Longrightarrow>
   inventory (fst (on_order_response now (Object d) s)) = inventory s - get_or 0 (r_qty d) \<and>
   cash_flow (fst (on_order_response now (Object d) s)) =
     cash_flow s + of_int (get_or 0 (r_qty d)) * get_or 0 (r_price d) \<and>
   snd (on_order_response now (Object d) s) \<noteq> [Printed OrderResponseError] \<and>
   on_order_message (Object d) m =
     (case r_qty d of
        None \<Rightarrow> Raised TypeError m []
      | Some q \<Rightarrow>
          (case r_price d of
             None \<Rightarrow> Raised TypeError (m\<lparr>mt_inventory := mt_inventory m - q\<rparr>) []
           | Some p \<Rightarrow>
               Returned (m\<lparr>mt_inventory := mt_inventory m - q, mt_pnl := mt_pnl m + of_int q * p\<rparr>)
                 [Printed (ManualFill (r_side d) q p)]))"
  by (cases "r_side d")
     (simp_all add: on_order_response_def on_order_message_def Let_def get_or_def
        split: option.split)

text \<open>
  The theorem at a fill of 7 at 3 with the side HOLD and at one with no side: both
  programs end 7 short with 21 in cash.
\<close>

theorem other_side_is_sell_witness:
  "r_type hold_7_at_3 = Some ''FILL'' \<and> r_side hold_7_at_3 \<noteq> Some ''BUY'' \<and>
   r_type sideless_7_at_3 = Some ''FILL'' \<and> r_side sideless_7_at_3 \<noteq> Some ''BUY'' \<and>
   inventory (fst (on_order_response 2 (Object hold_7_at_3) (init_bot ''x''))) = - 7 \<and>
   cash_flow (fst (on_order_response 2 (Object hold_7_at_3) (init_bot ''x''))) = 21 \<and>
   inventory (fst (on_order_response 2 (Object sideless_7_at_3) (init_bot ''x''))) = - 7 \<and>
   cash_flow (fst (on_order_response 2 (Object sideless_7_at_3) (init_bot ''x''))) = 21 \<and>
   mt_inventory (final (on_order_message (Object hold_7_at_3) (init_trader ''m''))) = - 7 \<and>
   mt_pnl (final (on_order_message (Object hold_7_at_3) (init_trader ''m''))) = 21 \<and>
   mt_inventory (final (on_order_message (Object sideless_7_at_3) (init_trader ''m''))) = - 7 \<and>
   mt_pnl (final (on_order_message (Object sideless_7_at_3) (init_trader ''m''))) = 21"
proof -
  have h: "r_type hold_7_at_3 = Some ''FILL''" "r_side hold_7_at_3 \<noteq> Some ''BUY''"
    by (simp_all add: hold_7_at_3_def)
  have n: "r_type sideless_7_at_3 = Some ''FILL''" "r_side sideless_7_at_3 \<noteq> Some ''BUY''"
    by (simp_all add: sideless_7_at_3_def)
  from other_side_is_sell [OF h, of 2 "init_bot ''x''" "init_trader ''m''"]
       other_side_is_sell [OF n, of 2 "init_bot ''x''" "init_trader ''m''"] h n
  show ?thesis
    by (simp add: hold_7_at_3_def sideless_7_at_3_def get_or_def init_bot_def init_trader_def)
qed

section \<open>C6: the step latency sample\<close>

lemma send_order_latency_fields:
  "step_latencies (fst (send_order env od s)) = step_latencies s \<and>
   last_done_time (fst (send_order env od s)) = last_done_time s"
  by (simp add: send_order_def Let_def)

lemma order_response_latency_fields:
  "step_latencies (fst (on_order_response now msg s)) = step_latencies s \<and>
   last_done_time (fst (on_order_response now msg s)) = last_done_time s"
  by (simp add: on_order_response_def Let_def split: payload.split option.split)

lemma market_data_step_latencies:
  "m_type d \<noteq> Some ''CONNECTED'' \<Longrightarrow>
   step_latencies (fst (on_market_data decide env (Object d) s)) =
     (case last_done_time s of
        None \<Rightarrow> step_latencies s
      | Some t0 \<Rightarrow> step_latencies s @ [(recv_time env - t0) * 1000])"
  by (simp add: on_market_data_def Let_def send_order_latency_fields send_done_def
        split: option.split)

lemma market_data_done_time:
  "m_type d \<noteq> Some ''CONNECTED'' \<Longrightarrow>
   last_done_time (fst (on_market_data decide env (Object d) s)) =
     (if done_send_ok env then Some (done_time env) else last_done_time s)"
  by (simp add: on_market_data_def Let_def send_order_latency_fields send_done_def
        split: option.split)

lemma no_tick_latency_fields:
  "\<not> is_tick e \<Longrightarrow>
   step_latencies (fst (handle decide e s)) = step_latencies s \<and>
   last_done_time (fst (handle decide e s)) = last_done_time s"
proof (cases e)
  case (MarketData env msg)
  assume "\<not> is_tick e"
  with MarketData show ?thesis
    by (cases msg) (simp_all add: on_market_data_def)
next
  case (OrderResponse now msg)
  then show ?thesis by (simp add: order_response_latency_fields)
qed

lemma session_no_tick_latency_fields:
  "ticks es = [] \<Longrightarrow>
   step_latencies (fst (session decide es s)) = step_latencies s \<and>
   last_done_time (fst (session decide es s)) = last_done_time s"
proof (induction es arbitrary: s)
  case Nil
  show ?case by simp
next
  case (Cons e es)
  from Cons.prems have e: "\<not> is_tick e" and es: "ticks es = []"
    by (auto simp: ticks_def split: if_splits)
  from Cons.IH [OF es, of "fst (handle decide e s)"] no_tick_latency_fields [OF e, of decide s]
  show ?case by (simp add: Let_def)
qed

text \<open>
  Claim C6. Let a tick be processed whose DONE went out, the clock reading \<open>t0\<close> right
  after the send, and let the next tick arrive at \<open>t1\<close>, with no tick between the two
  (order responses, greetings and undecodable messages may come between). Then the
  second tick appends exactly one sample to \<open>step_latencies\<close>, the time from \<open>t0\<close> to
  \<open>t1\<close>: the clock counts seconds and the samples are kept in milliseconds, so the
  number stored is \<open>(t1 - t0) * 1000\<close>. The first tick of a fresh bot, whatever came
  before it that was not a tick, records no sample. In general a tick records the time
  since \<open>last_done_time\<close> when there is one and nothing when there is none.
\<close>

theorem step_latency_is_done_to_arrival:
  assumes "m_type d1 \<noteq> Some ''CONNECTED''" and "done_send_ok env1"
    and "ticks between = []" and "m_type d2 \<noteq> Some ''CONNECTED''"
    and "ticks before = []"
  shows
   "step_latencies
      (fst (on_market_data decide env2 (Object d2)
        (fst (session decide between (fst (on_market_data decide env1 (Object d1) s)))))) =
    step_latencies (fst (on_market_data decide env1 (Object d1) s))
      @ [(recv_time env2 - done_time env1) * 1000] \<and>
    step_latencies
      (fst (on_market_data decide env2 (Object d2) (fst (session decide before (init_bot sid))))) = [] \<and>
    step_latencies (fst (on_market_data decide env2 (Object d2) s)) =
      (case last_done_time s of
         None \<Rightarrow> step_latencies s
       | Some t0 \<Rightarrow> step_latencies s @ [(recv_time env2 - t0) * 1000])"
proof -
  let ?s1 = "fst (on_market_data decide env1 (Object d1) s)"
  let ?s2 = "fst (session decide between ?s1)"
  from assms(1,2) have "last_done_time ?s1 = Some (done_time env1)"
    by (simp add: market_data_done_time)
  with session_no_tick_latency_fields [OF assms(3), of decide ?s1]
  have "last_done_time ?s2 = Some (done_time env1)" and "step_latencies ?s2 = step_latencies ?s1"
    by simp_all
  with assms(4) have a: "step_latencies (fst (on_market_data decide env2 (Object d2) ?s2)) =
      step_latencies ?s1 @ [(recv_time env2 - done_time env1) * 1000]"
    by (simp add: market_data_step_latencies)
  from session_no_tick_latency_fields [OF assms(5), of decide "init_bot sid"]
  have "last_done_time (fst (session decide before (init_bot sid))) = None"
    and "step_latencies (fst (session decide before (init_bot sid))) = []"
    by (simp_all add: init_bot_def)
  with assms(4) have b: "step_latencies
      (fst (on_market_data decide env2 (Object d2) (fst (session decide before (init_bot sid))))) = []"
    by (simp add: market_data_step_latencies)
  from a b market_data_step_latencies [OF assms(4)] show ?thesis by simp
qed

text \<open>
  The theorem at a fresh bot: the first tick records nothing and sends DONE with the
  clock at 5; the ready message of the order channel follows; the next tick arrives at 7
  and records 2000 milliseconds. A first tick that comes after the greeting and the
  ready message records nothing either.
\<close>

theorem step_latency_is_done_to_arrival_witness:
  "m_type tick_9_11 \<noteq> Some ''CONNECTED'' \<and> done_send_ok calm \<and>
   ticks [OrderResponse 6 (Object authenticated)] = [] \<and>
   ticks [MarketData calm (Object greeting), OrderResponse 2 (Object authenticated)] = [] \<and>
   step_latencies (fst (on_market_data decide_order calm (Object tick_9_11) (init_bot ''x''))) = [] \<and>
   step_latencies
      (fst (on_market_data decide_order (calm\<lparr>recv_time := 7\<rparr>) (Object tick_9_11)
        (fst (session decide_order [OrderResponse 6 (Object authenticated)]
           (fst (on_market_data decide_order calm (Object tick_9_11) (init_bot ''x''))))))) = [2000] \<and>
   step_latencies
      (fst (on_market_data decide_order (calm\<lparr>recv_time := 7\<rparr>) (Object tick_9_11)
        (fst (session decide_order
           [MarketData calm (Object greeting), OrderResponse 2 (Object authenticated)]
           (init_bot ''x''))))) = []"
proof -
  have h1: "m_type tick_9_11 \<noteq> Some ''CONNECTED''" by (simp add: tick_9_11_def)
  have h2: "done_send_ok calm" by (simp add: calm_def)
  have h3: "ticks [OrderResponse 6 (Object authenticated)] = []" by (simp add: ticks_def)
  have h5: "ticks [MarketData calm (Object greeting), OrderResponse 2 (Object authenticated)] = []"
    by (simp add: ticks_def greeting_def)
  have first: "step_latencies (fst (on_market_data decide_order calm (Object tick_9_11) (init_bot ''x''))) = []"
    by (simp add: market_data_step_latencies h1 init_bot_def)
  from step_latency_is_done_to_arrival [OF h1 h2 h3 h1 h5,
         of decide_order "calm\<lparr>recv_time := 7\<rparr>" "init_bot ''x''" "''x''"]
       h1 h2 h3 h5 first
  show ?thesis by (simp add: calm_def)
qed

section \<open>C4: DONE and the market tick\<close>

lemma sends_append: "sends (xs @ ys) = sends xs @ sends ys"
  by (induction xs rule: sends.induct) simp_all

lemma sends_send_order:
  "sends (snd (send_order env od s)) =
     (if order_send_ok env
      then [BotOrder (order_id_of (student_id s) (current_step s) (orders_sent s))
              (side od) (price od) (qty od)]
      else [])"
  by (simp add: send_order_def Let_def)

lemma sends_send_done: "sends (snd (send_done env s)) = (if done_send_ok env then [Done] else [])"
  by (simp add: send_done_def)

lemma recorded_fields:
  "student_id (recorded env d s) = student_id s \<and>
   orders_sent (recorded env d s) = orders_sent s \<and>
   current_step (recorded env d s) = get_or 0 (m_step d) \<and>
   last_bid (recorded env d s) = get_or 0 (m_bid d) \<and>
   last_ask (recorded env d s) = get_or 0 (m_ask d) \<and>
   last_mid (recorded env d s) = mid_price (get_or 0 (m_bid d)) (get_or 0 (m_ask d))"
  by (simp add: recorded_def Let_def split: option.split)

lemma sends_tick:
  "m_type d \<noteq> Some ''CONNECTED'' \<Longrightarrow>
   sends (snd (on_market_data decide env (Object d) s)) =
     (case decide (recorded env d s) (last_bid (recorded env d s)) (last_ask (recorded env d s))
             (last_mid (recorded env d s)) of
        None \<Rightarrow> []
      | Some od \<Rightarrow>
          if sock_open env \<and> order_send_ok env
          then [BotOrder (order_id_of (student_id s) (get_or 0 (m_step d)) (orders_sent s))
                  (side od) (price od) (qty od)]
          else [])
     @ (if done_send_ok env then [Done] else [])"
  by (simp add: on_market_data_def recorded_def Let_def sends_append sends_send_order
        sends_send_done split: option.split)

lemma sends_tick_shape:
  "m_type d \<noteq> Some ''CONNECTED'' \<Longrightarrow>
   \<exists>pre. sends (snd (on_market_data decide env (Object d) s)) =
            pre @ (if done_send_ok env then [Done] else []) \<and>
         (pre = [] \<or> (\<exists>oid sd p q. pre = [BotOrder oid sd p q]))"
  by (simp add: sends_tick split: option.split)

lemma sends_no_tick:
  "\<not> is_tick (MarketData env msg) \<Longrightarrow> sends (snd (on_market_data decide env msg s)) = []"
  by (cases msg) (simp_all add: on_market_data_def)

lemma sends_market_message: "sends (effects (on_market_message msg m)) = []"
  by (simp add: on_market_message_def Let_def split: payload.split)

lemma sends_step_command:
  "map lower_char word \<in> set [''step'', ''next'', ''done''] \<Longrightarrow> cmd_send_ok env \<Longrightarrow>
   sends (turn_effects (command env (word # rest) m)) = [Done]"
  by (auto simp: command_def Let_def)

text \<open>
  Claim C4, as amended. In TradingBot a processed tick (a market message that decodes
  to an object with fields of the wire format's types and is not the greeting) puts on
  the order channel exactly this: first the order the strategy returned for the tick,
  with the id of the bot's step and counter and the strategy's side, price and qty,
  when the strategy returned one, the order socket is up and the send went through;
  then DONE, when the send of DONE went through. So a processed tick sends exactly one
  DONE when the channel takes it and none when it does not, and never a DONE before the
  order of the same tick. A market message that is not a processed tick sends nothing.
  In ManualTrader no market message sends anything: DONE goes out once for each step,
  next or done command of the operator.
\<close>

theorem done_once_per_tick:
  assumes "m_type d \<noteq> Some ''CONNECTED''"
    and "\<not> is_tick (MarketData env other)"
    and "map lower_char word \<in> set [''step'', ''next'', ''done'']" and "cmd_send_ok cenv"
  shows
   "sends (snd (on_market_data decide env (Object d) s)) =
      (case decide (recorded env d s) (last_bid (recorded env d s)) (last_ask (recorded env d s))
              (last_mid (recorded env d s)) of
         None \<Rightarrow> []
       | Some od \<Rightarrow>
           if sock_open env \<and> order_send_ok env
           then [BotOrder (order_id_of (student_id s) (get_or 0 (m_step d)) (orders_sent s))
                   (side od) (price od) (qty od)]
           else [])
      @ (if done_send_ok env then [Done] else []) \<and>
    (\<exists>pre. sends (snd (on_market_data decide env (Object d) s)) =
             pre @ (if done_send_ok env then [Done] else []) \<and>
           (pre = [] \<or> (\<exists>oid sd p q. pre = [BotOrder oid sd p q]))) \<and>
    sends (snd (on_market_data decide env other s)) = [] \<and>
    sends (effects (on_market_message msg m)) = [] \<and>
    sends (turn_effects (command cenv (word # rest) m)) = [Done]"
  using sends_tick [OF assms(1)] sends_tick_shape [OF assms(1)] sends_no_tick [OF assms(2)]
    sends_market_message sends_step_command [OF assms(3,4)]
  by blast

text \<open>
  The theorem at a fresh bot: a tick at step 50 sends the order of the template's
  strategy and then DONE, a tick at step 1 sends DONE alone, the greeting sends
  nothing; and the command STEP of the manual trader sends DONE.
\<close>

theorem done_once_per_tick_witness:
  "m_type tick_step_50 \<noteq> Some ''CONNECTED'' \<and>
   \<not> is_tick (MarketData calm (Object greeting)) \<and>
   map lower_char ''STEP'' \<in> set [''step'', ''next'', ''done''] \<and> cmd_send_ok step_env \<and>
   decide_order (recorded calm tick_step_50 (init_bot ''x'')) 9 11 10 =
     Some \<lparr>side = ''SELL'', price = 9, qty = 100\<rparr> \<and>
   sends (snd (on_market_data decide_order calm (Object tick_step_50) (init_bot ''x''))) =
     [BotOrder ''ORD_x_50_0'' ''SELL'' 9 100, Done] \<and>
   sends (snd (on_market_data decide_order calm (Object tick_9_11) (init_bot ''x''))) = [Done] \<and>
   sends (snd (on_market_data decide_order calm (Object greeting) (init_bot ''x''))) = [] \<and>
   sends (turn_effects (command step_env [''STEP''] (init_trader ''m''))) = [Done]"
proof -
  have h1: "m_type tick_step_50 \<noteq> Some ''CONNECTED''" by (simp add: tick_step_50_def tick_9_11_def)
  have h2: "\<not> is_tick (MarketData calm (Object greeting))" by (simp add: greeting_def)
  have h3: "map lower_char ''STEP'' \<in> set [''step'', ''next'', ''done'']" by (simp add: text_eval)
  have h4: "cmd_send_ok step_env" by (simp add: step_env_def)
  have r: "last_bid (recorded calm tick_step_50 (init_bot ''x'')) = 9"
    "last_ask (recorded calm tick_step_50 (init_bot ''x'')) = 11"
    "last_mid (recorded calm tick_step_50 (init_bot ''x'')) = 10"
    by (simp_all add: recorded_fields tick_step_50_def tick_9_11_def get_or_def mid_price_def)
  have dec: "decide_order (recorded calm tick_step_50 (init_bot ''x'')) 9 11 10 =
     Some \<lparr>side = ''SELL'', price = 9, qty = 100\<rparr>"
    by (simp add: decide_order_def recorded_def Let_def init_bot_def tick_step_50_def
          tick_9_11_def get_or_def round2_def round_half_even_def)
  have oid: "order_id_of ''x'' 50 0 = ''ORD_x_50_0''"
    by (simp add: order_id_of_def text_eval)
  have b: "sends (snd (on_market_data decide_order calm (Object tick_9_11) (init_bot ''x''))) = [Done]"
    by (simp add: on_market_data_def tick_9_11_def Let_def get_or_def
          mid_price_def decide_order_def init_bot_def calm_def send_done_def)
  from done_once_per_tick [OF h1 h2 h3 h4, of decide_order "init_bot ''x''" NonObject "init_trader ''m''" "[]"]
  have "sends (snd (on_market_data decide_order calm (Object tick_step_50) (init_bot ''x''))) =
     [BotOrder ''ORD_x_50_0'' ''SELL'' 9 100, Done]"
    and "sends (snd (on_market_data decide_order calm (Object greeting) (init_bot ''x''))) = []"
    and "sends (turn_effects (command step_env [''STEP''] (init_trader ''m''))) = [Done]"
    using r dec oid
    by (simp_all add: calm_def init_bot_def tick_step_50_def tick_9_11_def get_or_def)
  with h1 h2 h3 h4 dec b show ?thesis by simp
qed

text \<open>
  Against claim C4 as stated: ManualTrader processes a market tick (it prints the book)
  and sends no DONE; and the bot, when the send of DONE raises, has processed the tick
  and sent none.
\<close>

theorem done_not_once_per_tick:
  "effects (on_market_message (Object tick_9_11) (init_trader ''m'')) =
     [Printed (Book [[(''price'', FloatNum 9), (''qty'', IntNum 5)]]
                    [[(''price'', FloatNum 11), (''qty'', IntNum 7)]] (FloatNum 10) 0 0)] \<and>
   sends (effects (on_market_message (Object tick_9_11) (init_trader ''m''))) = [] \<and>
   history_steps (fst (on_market_data decide_order (calm\<lparr>done_send_ok := False\<rparr>)
            (Object tick_9_11) (init_bot ''x''))) = [1] \<and>
   sends (snd (on_market_data decide_order (calm\<lparr>done_send_ok := False\<rparr>) (Object tick_9_11)
            (init_bot ''x''))) = []"
  by (simp add: on_market_message_def on_market_data_def tick_9_11_def Let_def get_or_def
        mid_price_def decide_order_def init_bot_def init_trader_def calm_def send_done_def)

section \<open>C5: repeated snapshots\<close>

lemma send_order_history: "history_steps (fst (send_order env od s)) = history_steps s"
  by (simp add: send_order_def Let_def)

lemma tick_history:
  "m_type d \<noteq> Some ''CONNECTED'' \<Longrightarrow>
   history_steps (fst (on_market_data decide env (Object d) s)) =
     history_steps s @ [get_or 0 (m_step d)]"
  by (simp add: on_market_data_def Let_def send_order_history send_done_def split: option.split)

lemma book_sets_hash:
  "is_book d \<Longrightarrow>
   last_snapshot_hash (final (on_market_message (Object d) m)) =
     Some (take 10 (get_or [] (m_bids d)), take 10 (get_or [] (m_asks d)),
           get_or (FloatNum 0) (m_last_trade d), m_step d)"
  by (auto simp: on_market_message_def is_book_def Let_def)

lemma book_after_hash:
  "is_book d \<Longrightarrow>
   on_market_message (Object d) m =
     (if last_snapshot_hash m =
           Some (take 10 (get_or [] (m_bids d)), take 10 (get_or [] (m_asks d)),
                 get_or (FloatNum 0) (m_last_trade d), m_step d)
      then Returned m []
      else Returned
             (m\<lparr>last_snapshot_hash :=
                  Some (take 10 (get_or [] (m_bids d)), take 10 (get_or [] (m_asks d)),
                        get_or (FloatNum 0) (m_last_trade d), m_step d)\<rparr>)
             [Printed (Book (get_or [] (m_bids d)) (get_or [] (m_asks d))
                         (get_or (FloatNum 0) (m_last_trade d)) (mt_inventory m) (mt_pnl m))])"
  by (auto simp: on_market_message_def is_book_def Let_def)

lemma book_keeps_ledger:
  "mt_inventory (final (on_market_message msg m)) = mt_inventory m \<and>
   mt_pnl (final (on_market_message msg m)) = mt_pnl m"
  by (simp add: on_market_message_def Let_def split: payload.split)

lemma same_text_same_values: "same_top_of_book d1 d2 \<Longrightarrow> same_top_values d1 d2"
  by (simp add: same_top_of_book_def same_top_values_def)

text \<open>
  Claim C5, as amended. ManualTrader deduplicates by the dumped text: of two book
  messages that follow one another, the second is not displayed (and changes nothing)
  when its first ten bids, first ten asks, last trade and step are written as those of
  the first are (the same keys in the same order within each level, each number of the
  same kind and value), and is displayed exactly once otherwise. A change in the value
  of a single top level, of the last trade or of the step is such a difference; so is
  the same value written another way (the keys of a level in another order, 10 for
  10.0). TradingBot processes every tick: a tick that repeats the one before is
  recorded and answered again (its step joins the history a second time, and DONE is
  the last thing sent when the channel takes it). Which of the two applies is fixed by
  the program; neither program has a setting that switches.
\<close>

theorem dedup_in_manual_every_tick_in_bot:
  assumes "is_book d1" and "is_book d2" and "m_type d \<noteq> Some ''CONNECTED''"
  shows
   "(if same_top_of_book d1 d2
     then on_market_message (Object d2) (final (on_market_message (Object d1) m)) =
            Returned (final (on_market_message (Object d1) m)) []
     else effects (on_market_message (Object d2) (final (on_market_message (Object d1) m))) =
            [Printed (Book (get_or [] (m_bids d2)) (get_or [] (m_asks d2))
                        (get_or (FloatNum 0) (m_last_trade d2)) (mt_inventory m) (mt_pnl m))]) \<and>
    (\<not> same_top_values d1 d2 \<longrightarrow>
       effects (on_market_message (Object d2) (final (on_market_message (Object d1) m))) =
         [Printed (Book (get_or [] (m_bids d2)) (get_or [] (m_asks d2))
                     (get_or (FloatNum 0) (m_last_trade d2)) (mt_inventory m) (mt_pnl m))]) \<and>
    history_steps (fst (on_market_data decide env2 (Object d)
                     (fst (on_market_data decide env1 (Object d) s)))) =
      history_steps s @ [get_or 0 (m_step d), get_or 0 (m_step d)] \<and>
    (done_send_ok env2 \<longrightarrow>
       last (sends (snd (on_market_data decide env2 (Object d)
                     (fst (on_market_data decide env1 (Object d) s))))) = Done)"
proof -
  let ?m1 = "final (on_market_message (Object d1) m)"
  have a: "(if same_top_of_book d1 d2
     then on_market_message (Object d2) ?m1 = Returned ?m1 []
     else effects (on_market_message (Object d2) ?m1) =
            [Printed (Book (get_or [] (m_bids d2)) (get_or [] (m_asks d2))
                        (get_or (FloatNum 0) (m_last_trade d2)) (mt_inventory m) (mt_pnl m))])"
    using book_sets_hash [OF assms(1), of m] book_keeps_ledger [of "Object d1" m]
    by (auto simp: book_after_hash [OF assms(2)] same_top_of_book_def)
  from a same_text_same_values [of d1 d2]
  have a': "\<not> same_top_values d1 d2 \<longrightarrow>
       effects (on_market_message (Object d2) ?m1) =
         [Printed (Book (get_or [] (m_bids d2)) (get_or [] (m_asks d2))
                     (get_or (FloatNum 0) (m_last_trade d2)) (mt_inventory m) (mt_pnl m))]"
    by (auto split: if_splits)
  have b: "history_steps (fst (on_market_data decide env2 (Object d)
                     (fst (on_market_data decide env1 (Object d) s)))) =
      history_steps s @ [get_or 0 (m_step d), get_or 0 (m_step d)]"
    by (simp add: tick_history [OF assms(3)])
  have c: "done_send_ok env2 \<longrightarrow>
       last (sends (snd (on_market_data decide env2 (Object d)
                     (fst (on_market_data decide env1 (Object d) s))))) = Done"
    using sends_tick_shape [OF assms(3), of decide env2 "fst (on_market_data decide env1 (Object d) s)"]
    by auto
  from a a' b c show ?thesis by blast
qed

text \<open>
  The theorem at a fresh manual trader and a fresh bot: the book with bid 9 and ask 11
  a second time is not displayed, the book with the ask moved to 12 is displayed once;
  the bot records the repeated tick twice.
\<close>

theorem dedup_in_manual_every_tick_in_bot_witness:
  "is_book tick_9_11 \<and> is_book tick_9_12 \<and> m_type tick_9_11 \<noteq> Some ''CONNECTED'' \<and>
   same_top_of_book tick_9_11 tick_9_11 \<and> \<not> same_top_of_book tick_9_11 tick_9_12 \<and>
   \<not> same_top_values tick_9_11 tick_9_12 \<and>
   effects (on_market_message (Object tick_9_11)
              (final (on_market_message (Object tick_9_11) (init_trader ''m'')))) = [] \<and>
   effects (on_market_message (Object tick_9_12)
              (final (on_market_message (Object tick_9_11) (init_trader ''m'')))) =
     [Printed (Book [[(''price'', FloatNum 9), (''qty'', IntNum 5)]]
                    [[(''price'', FloatNum 12), (''qty'', IntNum 7)]] (FloatNum 10) 0 0)] \<and>
   history_steps (fst (on_market_data decide_order calm (Object tick_9_11)
                     (fst (on_market_data decide_order calm (Object tick_9_11) (init_bot ''x''))))) = [1, 1]"
proof -
  have h1: "is_book tick_9_11" by (simp add: is_book_def tick_9_11_def)
  have h2: "is_book tick_9_12" by (simp add: is_book_def tick_9_12_def tick_9_11_def)
  have h3: "m_type tick_9_11 \<noteq> Some ''CONNECTED''" by (simp add: tick_9_11_def)
  have s1: "same_top_of_book tick_9_11 tick_9_11" by (simp add: same_top_of_book_def)
  have s2: "\<not> same_top_of_book tick_9_11 tick_9_12"
    by (simp add: same_top_of_book_def tick_9_12_def tick_9_11_def get_or_def)
  have "{(''price'', 11 :: real), (''qty'', 7)} \<noteq> {(''price'', 12), (''qty'', 7)}"
  proof
    assume eq: "{(''price'', 11 :: real), (''qty'', 7)} = {(''price'', 12), (''qty'', 7)}"
    have "(''price'', 12 :: real) \<in> {(''price'', 12), (''qty'', 7)}" by simp
    then have "(''price'', 12 :: real) \<in> {(''price'', 11), (''qty'', 7)}" unfolding eq .
    then show False by simp
  qed
  then have s3: "\<not> same_top_values tick_9_11 tick_9_12"
    by (simp add: same_top_values_def level_value_def tick_9_12_def tick_9_11_def get_or_def)
  from dedup_in_manual_every_tick_in_bot [OF h1 h1 h3, of "init_trader ''m''" decide_order calm calm "init_bot ''x''"]
       dedup_in_manual_every_tick_in_bot [OF h1 h2 h3, of "init_trader ''m''" decide_order calm calm "init_bot ''x''"]
       h1 h2 h3 s1 s2 s3
  show ?thesis
    by (simp add: tick_9_12_def tick_9_11_def get_or_def init_trader_def init_bot_def)
qed

text \<open>
  Against claim C5 as stated. The bot, given the same snapshot twice in a row,
  processes the second like the first, recording its step and sending DONE again. And
  ManualTrader, given a snapshot and then one with the same top values written another
  way (the keys of the bid in the other order, the last trade as 10 for 10.0), displays
  the second as well.
\<close>

theorem bot_processes_identical_snapshot_again:
  "sends (snd (session decide_order
           [MarketData calm (Object tick_9_11), MarketData calm (Object tick_9_11)]
           (init_bot ''x''))) = [Done, Done] \<and>
   history_steps (fst (session decide_order
           [MarketData calm (Object tick_9_11), MarketData calm (Object tick_9_11)]
           (init_bot ''x''))) = [1, 1] \<and>
   same_top_values tick_9_11 tick_9_11_rewritten \<and>
   effects (on_market_message (Object tick_9_11_rewritten)
              (final (on_market_message (Object tick_9_11) (init_trader ''m'')))) =
     [Printed (Book [[(''qty'', IntNum 5), (''price'', FloatNum 9)]]
                    [[(''price'', FloatNum 11), (''qty'', IntNum 7)]] (IntNum 10) 0 0)]"
proof -
  have a: "sends (snd (session decide_order
           [MarketData calm (Object tick_9_11), MarketData calm (Object tick_9_11)]
           (init_bot ''x''))) = [Done, Done]"
    "history_steps (fst (session decide_order
           [MarketData calm (Object tick_9_11), MarketData calm (Object tick_9_11)]
           (init_bot ''x''))) = [1, 1]"
    by (simp_all add: on_market_data_def tick_9_11_def Let_def get_or_def
          mid_price_def decide_order_def init_bot_def calm_def send_done_def)
  have b: "same_top_values tick_9_11 tick_9_11_rewritten"
    by (auto simp: same_top_values_def level_value_def tick_9_11_rewritten_def tick_9_11_def
          get_or_def)
  have c: "effects (on_market_message (Object tick_9_11_rewritten)
              (final (on_market_message (Object tick_9_11) (init_trader ''m'')))) =
     [Printed (Book [[(''qty'', IntNum 5), (''price'', FloatNum 9)]]
                    [[(''price'', FloatNum 11), (''qty'', IntNum 7)]] (IntNum 10) 0 0)]"
    by (simp add: on_market_message_def tick_9_11_rewritten_def tick_9_11_def Let_def
          get_or_def init_trader_def)
  from a b c show ?thesis by simp
qed

section \<open>C7: order ids\<close>

subsection \<open>The decimal text of a number determines the number\<close>

lemma digit_char_inj: "d < 10 \<Longrightarrow> e < 10 \<Longrightarrow> digit_char d = digit_char e \<Longrightarrow> d = e"
proof -
  assume d: "d < 10" and e: "e < 10" and eq: "digit_char d = digit_char e"
  from eq have "(of_char (digit_char d) :: nat) = of_char (digit_char e)" by simp
  then have "(48 + d) mod 256 = (48 + e) mod 256" by (simp add: digit_char_def)
  with d e show "d = e" by simp
qed

lemma digit_char_code: "d < 10 \<Longrightarrow> (of_char (digit_char d) :: nat) = 48 + d"
  by (simp add: digit_char_def)

lemma show_nat_codes: "c \<in> set (show_nat n) \<Longrightarrow> 48 \<le> (of_char c :: nat) \<and> (of_char c :: nat) < 58"
proof (induction n rule: show_nat.induct)
  case (1 n)
  show ?case
  proof (cases "n < 10")
    case True
    with "1.prems" have "c = digit_char n" by (simp add: show_nat.simps [of n])
    with True show ?thesis by (simp add: digit_char_code)
  next
    case False
    with "1.prems" have "c \<in> set (show_nat (n div 10)) \<or> c = digit_char (n mod 10)"
      by (auto simp: show_nat.simps [of n])
    then show ?thesis
    proof
      assume "c \<in> set (show_nat (n div 10))"
      with False "1.IH" show ?thesis by simp
    next
      assume "c = digit_char (n mod 10)"
      then show ?thesis by (simp add: digit_char_code)
    qed
  qed
qed

lemma show_nat_no_underscore: "CHR ''_'' \<notin> set (show_nat n)"
  using show_nat_codes [of "CHR ''_''" n] by auto

lemma show_nat_no_minus: "CHR ''-'' \<notin> set (show_nat n)"
  using show_nat_codes [of "CHR ''-''" n] by auto

lemma show_nat_nonempty: "show_nat n \<noteq> []"
  by (simp add: show_nat.simps [of n])

lemma show_nat_inj: "show_nat n = show_nat m \<Longrightarrow> n = m"
proof (induction n arbitrary: m rule: show_nat.induct)
  case (1 n)
  show ?case
  proof (cases "n < 10")
    case n: True
    show ?thesis
    proof (cases "m < 10")
      case True
      with n "1.prems" show ?thesis
        by (simp add: show_nat.simps [of n] show_nat.simps [of m] digit_char_inj)
    next
      case False
      with n "1.prems" show ?thesis
        by (simp add: show_nat.simps [of n] show_nat.simps [of m] show_nat_nonempty [symmetric])
    qed
  next
    case n: False
    show ?thesis
    proof (cases "m < 10")
      case True
      with n "1.prems" show ?thesis
        by (simp add: show_nat.simps [of n] show_nat.simps [of m] show_nat_nonempty)
    next
      case False
      with n "1.prems" have eq: "show_nat (n div 10) = show_nat (m div 10)"
        and dg: "digit_char (n mod 10) = digit_char (m mod 10)"
        by (simp_all add: show_nat.simps [of n] show_nat.simps [of m])
      from "1.IH" [OF n eq] have "n div 10 = m div 10" .
      moreover from dg have "n mod 10 = m mod 10" by (simp add: digit_char_inj)
      ultimately show ?thesis by (metis div_mult_mod_eq)
    qed
  qed
qed

lemma show_int_inj: "show_int i = show_int j \<Longrightarrow> i = j"
proof -
  assume eq: "show_int i = show_int j"
  have hd_pos: "\<And>n. hd (show_nat n) \<noteq> CHR ''-''"
    using show_nat_no_minus show_nat_nonempty by (metis hd_in_set)
  show ?thesis
  proof (cases "i < 0")
    case i: True
    show ?thesis
    proof (cases "j < 0")
      case True
      with i eq have "show_nat (nat (- i)) = show_nat (nat (- j))" by (simp add: show_int_def)
      then have "nat (- i) = nat (- j)" by (rule show_nat_inj)
      with i True show ?thesis by simp
    next
      case False
      with i eq have "CHR ''-'' # show_nat (nat (- i)) = show_nat (nat j)" by (simp add: show_int_def)
      then have "hd (show_nat (nat j)) = CHR ''-''" by (metis list.sel(1))
      with hd_pos show ?thesis by simp
    qed
  next
    case i: False
    show ?thesis
    proof (cases "j < 0")
      case True
      with i eq have "show_nat (nat i) = CHR ''-'' # show_nat (nat (- j))" by (simp add: show_int_def)
      then have "hd (show_nat (nat i)) = CHR ''-''" by (metis list.sel(1))
      with hd_pos show ?thesis by simp
    next
      case False
      with i eq have "show_nat (nat i) = show_nat (nat j)" by (simp add: show_int_def)
      then have "nat i = nat j" by (rule show_nat_inj)
      with i False show ?thesis by simp
    qed
  qed
qed

lemma after_last_separator:
  assumes "c \<notin> set u" and "c \<notin> set v" and "a @ c # u = b @ c # v"
  shows "u = v"
proof -
  from assms(3) have "rev (a @ c # u) = rev (b @ c # v)" by simp
  then have "rev u @ c # rev a = rev v @ c # rev b" by simp
  then have "takeWhile (\<lambda>x. x \<noteq> c) (rev u @ c # rev a) = takeWhile (\<lambda>x. x \<noteq> c) (rev v @ c # rev b)"
    by simp
  moreover from assms(1) have "takeWhile (\<lambda>x. x \<noteq> c) (rev u) = rev u"
    by (auto simp: takeWhile_eq_all_conv)
  moreover from assms(2) have "takeWhile (\<lambda>x. x \<noteq> c) (rev v) = rev v"
    by (auto simp: takeWhile_eq_all_conv)
  ultimately have "rev u = rev v" by (simp add: takeWhile_tail)
  then show ?thesis by simp
qed

lemma order_id_of_inj: "order_id_of sid st1 k1 = order_id_of sid st2 k2 \<Longrightarrow> k1 = k2"
proof -
  assume "order_id_of sid st1 k1 = order_id_of sid st2 k2"
  then have "(''ORD_'' @ sid @ ''_'' @ show_int st1) @ CHR ''_'' # show_nat k1 =
             (''ORD_'' @ sid @ ''_'' @ show_int st2) @ CHR ''_'' # show_nat k2"
    by (simp add: order_id_of_def)
  then have "show_nat k1 = show_nat k2"
    by (rule after_last_separator [OF show_nat_no_underscore show_nat_no_underscore])
  then show ?thesis by (rule show_nat_inj)
qed

subsection \<open>The ids a session sends\<close>

lemma sent_ids_append: "sent_ids (xs @ ys) = sent_ids xs @ sent_ids ys"
  by (induction xs rule: sent_ids.induct) simp_all

lemma order_response_ids:
  "student_id (fst (on_order_response now msg s)) = student_id s \<and>
   orders_sent (fst (on_order_response now msg s)) = orders_sent s \<and>
   sent_ids (snd (on_order_response now msg s)) = []"
  by (simp add: on_order_response_def Let_def split: payload.split option.split)

lemma send_order_ids:
  "student_id (fst (send_order env od s)) = student_id s \<and>
   (if order_send_ok env
    then sent_ids (snd (send_order env od s)) =
           [order_id_of (student_id s) (current_step s) (orders_sent s)] \<and>
         orders_sent (fst (send_order env od s)) = Suc (orders_sent s)
    else sent_ids (snd (send_order env od s)) = [] \<and>
         orders_sent (fst (send_order env od s)) = orders_sent s)"
  by (simp add: send_order_def Let_def)

lemma send_done_ids:
  "student_id (fst (send_done env s)) = student_id s \<and>
   orders_sent (fst (send_done env s)) = orders_sent s \<and>
   sent_ids (snd (send_done env s)) = []"
  by (simp add: send_done_def)

lemma market_data_ids:
  "student_id (fst (on_market_data decide env msg s)) = student_id s \<and>
   ((sent_ids (snd (on_market_data decide env msg s)) = [] \<and>
     orders_sent (fst (on_market_data decide env msg s)) = orders_sent s) \<or>
    (\<exists>st. sent_ids (snd (on_market_data decide env msg s)) =
            [order_id_of (student_id s) st (orders_sent s)] \<and>
          orders_sent (fst (on_market_data decide env msg s)) = Suc (orders_sent s)))"
proof (cases msg)
  case Undecodable
  then show ?thesis by (simp add: on_market_data_def)
next
  case NonObject
  then show ?thesis by (simp add: on_market_data_def)
next
  case (Object d)
  show ?thesis
  proof (cases "m_type d = Some ''CONNECTED''")
    case True
    with Object show ?thesis by (simp add: on_market_data_def)
  next
    case False
    with Object show ?thesis
      by (auto simp: on_market_data_def Let_def sent_ids_append send_order_def send_done_def
            split: option.split)
  qed
qed

lemma handle_ids:
  "student_id (fst (handle decide e s)) = student_id s \<and>
   ((sent_ids (snd (handle decide e s)) = [] \<and>
     orders_sent (fst (handle decide e s)) = orders_sent s) \<or>
    (\<exists>st. sent_ids (snd (handle decide e s)) = [order_id_of (student_id s) st (orders_sent s)] \<and>
          orders_sent (fst (handle decide e s)) = Suc (orders_sent s)))"
proof (cases e)
  case (MarketData env msg)
  with market_data_ids [of decide env msg s] show ?thesis by simp
next
  case (OrderResponse now msg)
  with order_response_ids [of now msg s] show ?thesis by simp
qed

lemma session_ids:
  "student_id (fst (session decide es s)) = student_id s \<and>
   orders_sent s \<le> orders_sent (fst (session decide es s)) \<and>
   distinct (sent_ids (snd (session decide es s))) \<and>
   (\<forall>oid \<in> set (sent_ids (snd (session decide es s))).
      \<exists>st k. orders_sent s \<le> k \<and> k < orders_sent (fst (session decide es s)) \<and>
             oid = order_id_of (student_id s) st k)"
proof (induction es arbitrary: s)
  case Nil
  show ?case by simp
next
  case (Cons e es)
  let ?s1 = "fst (handle decide e s)"
  let ?o1 = "snd (handle decide e s)"
  let ?s2 = "fst (session decide es ?s1)"
  let ?o2 = "snd (session decide es ?s1)"
  have sid: "student_id ?s1 = student_id s" using handle_ids [of decide e s] by simp
  from Cons.IH [of ?s1] sid
  have sid2: "student_id ?s2 = student_id s"
    and mono: "orders_sent ?s1 \<le> orders_sent ?s2"
    and dist: "distinct (sent_ids ?o2)"
    and range: "\<forall>oid \<in> set (sent_ids ?o2).
       \<exists>st k. orders_sent ?s1 \<le> k \<and> k < orders_sent ?s2 \<and> oid = order_id_of (student_id s) st k"
    by simp_all
  from handle_ids [of decide e s]
  consider (quiet) "sent_ids ?o1 = []" "orders_sent ?s1 = orders_sent s"
    | (order) st where "sent_ids ?o1 = [order_id_of (student_id s) st (orders_sent s)]"
        "orders_sent ?s1 = Suc (orders_sent s)"
    by blast
  then show ?case
  proof cases
    case quiet
    with sid2 mono dist range show ?thesis
      by (simp add: Let_def sent_ids_append)
  next
    case order
    have fresh: "order_id_of (student_id s) st (orders_sent s) \<notin> set (sent_ids ?o2)"
    proof
      assume "order_id_of (student_id s) st (orders_sent s) \<in> set (sent_ids ?o2)"
      with range obtain st' k where k: "orders_sent ?s1 \<le> k"
        and eq: "order_id_of (student_id s) st (orders_sent s) = order_id_of (student_id s) st' k"
        by blast
      from eq have "orders_sent s = k" by (rule order_id_of_inj)
      with k order(2) show False by simp
    qed
    have r: "\<forall>oid \<in> set (sent_ids (?o1 @ ?o2)).
       \<exists>st k. orders_sent s \<le> k \<and> k < orders_sent ?s2 \<and> oid = order_id_of (student_id s) st k"
    proof
      fix oid assume "oid \<in> set (sent_ids (?o1 @ ?o2))"
      with order(1) have "oid = order_id_of (student_id s) st (orders_sent s) \<or> oid \<in> set (sent_ids ?o2)"
        by (simp add: sent_ids_append)
      then show "\<exists>st k. orders_sent s \<le> k \<and> k < orders_sent ?s2 \<and> oid = order_id_of (student_id s) st k"
      proof
        assume "oid = order_id_of (student_id s) st (orders_sent s)"
        moreover from mono order(2) have "orders_sent s < orders_sent ?s2" by simp
        ultimately show ?thesis by blast
      next
        assume "oid \<in> set (sent_ids ?o2)"
        with range obtain st' k where "orders_sent ?s1 \<le> k" "k < orders_sent ?s2"
          "oid = order_id_of (student_id s) st' k" by blast
        with order(2) show ?thesis by (intro exI [of _ st'] exI [of _ k]) simp
      qed
    qed
    from sid2 mono order dist fresh r show ?thesis
      by (simp add: Let_def sent_ids_append)
  qed
qed

lemma manual_order_id_eq:
  "manual_order_id t1 = manual_order_id t2 \<longleftrightarrow> py_int (t1 * 1000) = py_int (t2 * 1000)"
  by (auto simp: manual_order_id_def dest: show_int_inj)

lemma manual_command_id:
  "map lower_char word \<in> set [''buy'', ''sell''] \<Longrightarrow> qty_parsed env = Some q \<Longrightarrow>
   price_parsed env = Some p \<Longrightarrow> cmd_send_ok env \<Longrightarrow>
   sent_ids (turn_effects (command env (word # a # b # rest) m)) = [manual_order_id (cmd_time env)]"
  by (auto simp: command_def Let_def)

text \<open>
  Claim C7, as amended. In TradingBot the ids of the orders sent in a session, whatever
  the session and the strategy, are pairwise distinct: an id is
  \<open>ORD_{student_id}_{step}_{n}\<close> with \<open>n\<close> the number of orders sent before it, and
  \<open>n\<close> grows with every order that goes out. In ManualTrader the id of a buy or sell
  command is \<open>manual_\<close> followed by the clock in whole milliseconds: two orders have
  different ids exactly when their commands read the clock in different milliseconds.
\<close>

theorem order_ids_distinct:
  assumes "map lower_char word \<in> set [''buy'', ''sell'']" and "qty_parsed env = Some q"
    and "price_parsed env = Some p" and "cmd_send_ok env"
  shows
   "distinct (sent_ids (snd (session decide es s))) \<and>
    sent_ids (turn_effects (command env (word # a # b # rest) m)) =
      [manual_order_id (cmd_time env)] \<and>
    (manual_order_id t1 = manual_order_id t2 \<longleftrightarrow> py_int (t1 * 1000) = py_int (t2 * 1000))"
  using session_ids [of decide es s] manual_order_id_eq [of t1 t2] manual_command_id [OF assms]
  by simp

text \<open>
  The theorem at a fresh bot that trades on two ticks of step 50, and at two manual
  orders a millisecond apart.
\<close>

theorem order_ids_distinct_witness:
  "map lower_char ''BUY'' \<in> set [''buy'', ''sell''] \<and> qty_parsed (buy_env 1.0001) = Some 1 \<and>
   price_parsed (buy_env 1.0001) = Some 10 \<and> cmd_send_ok (buy_env 1.0001) \<and>
   sent_ids (snd (session decide_order
      [MarketData calm (Object tick_step_50), MarketData calm (Object tick_step_50)]
      (init_bot ''x''))) = [''ORD_x_50_0'', ''ORD_x_50_1''] \<and>
   distinct [''ORD_x_50_0'', ''ORD_x_50_1''] \<and>
   sent_ids (turn_effects (command (buy_env 1.0001) [''BUY'', ''1'', ''10''] (init_trader ''m'')))
     = [''manual_1000''] \<and>
   manual_order_id 1.0011 = ''manual_1001'' \<and>
   manual_order_id 1.0001 \<noteq> manual_order_id 1.0011"
proof -
  have h: "map lower_char ''BUY'' \<in> set [''buy'', ''sell'']" "qty_parsed (buy_env 1.0001) = Some 1"
    "price_parsed (buy_env 1.0001) = Some 10" "cmd_send_ok (buy_env 1.0001)"
    by (simp_all add: buy_env_def text_eval)
  have a: "sent_ids (snd (session decide_order
      [MarketData calm (Object tick_step_50), MarketData calm (Object tick_step_50)]
      (init_bot ''x''))) = [''ORD_x_50_0'', ''ORD_x_50_1'']"
    by (simp add: on_market_data_def tick_step_50_def tick_9_11_def Let_def get_or_def
          mid_price_def decide_order_def init_bot_def calm_def send_order_def send_done_def
          order_id_of_def round2_def round_half_even_def text_eval)
  have b: "manual_order_id 1.0001 = ''manual_1000''" "manual_order_id 1.0011 = ''manual_1001''"
    by (simp_all add: manual_order_id_def py_int_def text_eval)
  have c: "py_int (1.0001 * 1000) \<noteq> py_int (1.0011 * 1000)"
    by (simp add: py_int_def)
  have t: "manual_order_id (cmd_time (buy_env 1.0001)) = ''manual_1000''"
    by (simp add: buy_env_def manual_order_id_def py_int_def text_eval)
  from order_ids_distinct [OF h, of decide_order
        "[MarketData calm (Object tick_step_50), MarketData calm (Object tick_step_50)]"
        "init_bot ''x''" "''1''" "''10''" "[]" "init_trader ''m''" "1.0001" "1.0011"] h a b c t
  show ?thesis by simp
qed

text \<open>
  Against claim C7 as stated: two buy commands of the manual trader that read the clock
  at 1.0001 and at 1.0002 seconds send two orders with one and the same id.
\<close>

theorem manual_ids_collide:
  "sent_ids (turn_effects (command (buy_env 1.0001) [''buy'', ''1'', ''10''] (init_trader ''m'')))
     = [''manual_1000''] \<and>
   sent_ids (turn_effects (command (buy_env 1.0002) [''buy'', ''1'', ''10''] (init_trader ''m'')))
     = [''manual_1000'']"
  by (simp add: command_def Let_def buy_env_def manual_order_id_def py_int_def text_eval)

section \<open>C8: registration\<close>

lemma bot_register_checks_reply:
  "snd (snd (register resp s)) \<longleftrightarrow>
     (\<exists>d. resp = Reply 200 (Object d) \<and> \<not> falsy (b_token d) \<and> \<not> falsy (b_run_id d))"
  by (auto simp: register_def Let_def split: http_reply.split payload.split)

lemma bot_opens_nothing_on_failure:
  "\<not> snd (snd (register resp s)) \<Longrightarrow> snd (run_start resp s) = fst (snd (register resp s)) \<and>
     (\<forall>c. Opened c \<notin> set (snd (run_start resp s)))"
  by (auto simp: run_start_def register_def Let_def split: http_reply.split payload.split prod.split)

lemma manual_register_checks_status_only:
  "snd (snd (mt_register resp s)) \<longleftrightarrow> (\<exists>d. resp = Reply 200 (Object d))"
  by (auto simp: mt_register_def Let_def split: http_reply.split payload.split)


section \<open>C9: a message that cannot be decoded\<close>

lemma bot_drops_malformed:
  "on_market_data decide env Undecodable s = (s, [Printed MarketDataError]) \<and>
   on_market_data decide env NonObject s = (s, [Printed MarketDataError]) \<and>
   session decide (MarketData env Undecodable # es) s =
     (fst (session decide es s), Printed MarketDataError # snd (session decide es s))"
  by (simp add: on_market_data_def Let_def)


end
